theory Spec2Isabelle
  imports Complex_Main
begin

section \<open>Conventions of the embedding\<close>

text \<open>
  The Python sources compute on numpy arrays of 64-bit floats. An array of samples is a
  list and a sample is a real number: the arithmetic on samples is the exact one, and a
  value that is no number (NaN, infinity) has no counterpart. Where a statement depends
  on the rounding of an operation (the snapping of a direction to the grid), the
  operation is the binary64 one, \<open>fl64\<close> of the exact result. Python integers that are
  never negative (lengths, cursors, sizes) are naturals, the others are integers. An
  exception raised by Python or numpy is a value of \<open>py_error\<close>, and a function that
  may raise returns \<open>py_error + 'a\<close>.
\<close>

datatype py_error = IndexError | KeyError | ValueError | ZeroDivisionError

text \<open>\<open>np.zeros(n)\<close> and \<open>np.pad(a, (0, k))\<close>.\<close>

definition np_zeros :: "nat \<Rightarrow> real list" where
  "np_zeros n = replicate n 0"

definition np_pad_right :: "real list \<Rightarrow> nat \<Rightarrow> real list" where
  "np_pad_right a k = a @ replicate k 0"

text \<open>\<open>int(x)\<close> of a float truncates toward zero.\<close>

definition py_int :: "real \<Rightarrow> int" where
  "py_int x = (if 0 \<le> x then \<lfloor>x\<rfloor> else \<lceil>x\<rceil>)"

text \<open>
  \<open>round(x)\<close> of a float rounds to the nearest integer and a tie to the even one.
\<close>

definition py_round :: "real \<Rightarrow> int" where
  "py_round x =
     (let f = \<lfloor>x\<rfloor>; d = x - of_int f
      in if d < 1 / 2 then f else if 1 / 2 < d then f + 1
         else if even f then f else f + 1)"

text \<open>
  The result of one binary64 operation is the exact result rounded to the nearest
  binary64 value, a tie to the even significand: the exact result is scaled so that the
  significand of 53 bits (or, below \<open>2 ^ -1022\<close>, the subnormal grid \<open>2 ^ -1074\<close>)
  is the integer grid, rounded there, and scaled back. Results beyond the largest finite
  binary64 value do not arise in the arithmetic modelled with it.
\<close>

definition fl64 :: "real \<Rightarrow> real" where
  "fl64 x =
     (if x = 0 then 0
      else let e = max (\<lfloor>log 2 \<bar>x\<bar>\<rfloor> - 52) (- 1074)
           in of_int (py_round (x / 2 powr of_int e)) * 2 powr of_int e)"

text \<open>
  A slice \<open>a[i:j]\<close> with integer bounds: a negative bound counts from the end, and
  both are clipped to the array. \<open>slice_bound\<close> is the position a bound stands for.
\<close>

definition slice_bound :: "nat \<Rightarrow> int \<Rightarrow> nat" where
  "slice_bound n i = (if i < 0 then nat (max (i + int n) 0) else min (nat i) n)"

definition py_slice :: "'a list \<Rightarrow> int \<Rightarrow> int \<Rightarrow> 'a list" where
  "py_slice a i j =
     (let lo = slice_bound (length a) i; hi = slice_bound (length a) j
      in take (hi - lo) (drop lo a))"

text \<open>
  An elementwise operation on two one-dimensional arrays: the lengths agree, or the
  array of length one is broadcast; any other pair of shapes raises ValueError.
\<close>

definition np_elementwise ::
  "('a \<Rightarrow> 'a \<Rightarrow> 'a) \<Rightarrow> 'a list \<Rightarrow> 'a list \<Rightarrow> py_error + 'a list" where
  "np_elementwise f a b =
     (if length a = length b then Inr (map2 f a b)
      else if length b = 1 then Inr (map (\<lambda>x. f x (hd b)) a)
      else if length a = 1 then Inr (map (\<lambda>y. f (hd a) y) b)
      else Inl ValueError)"

text \<open>
  The in-place form \<open>a += b\<close>: the result keeps the shape of \<open>a\<close>, so only \<open>b\<close>
  may be broadcast.
\<close>

definition np_iadd :: "real list \<Rightarrow> real list \<Rightarrow> py_error + real list" where
  "np_iadd a b =
     (if length a = length b then Inr (map2 (+) a b)
      else if length b = 1 then Inr (map (\<lambda>x. x + hd b) a)
      else Inl ValueError)"

text \<open>
  The slice assignment \<open>a[i:j] = v\<close> on an array: \<open>v\<close> has the length of the slice,
  or length one and is broadcast; otherwise ValueError.
\<close>

definition np_slice_assign :: "real list \<Rightarrow> int \<Rightarrow> int \<Rightarrow> real list \<Rightarrow> py_error + real list" where
  "np_slice_assign a i j v =
     (let lo = slice_bound (length a) i; hi = slice_bound (length a) j; k = hi - lo
      in if length v = k then Inr (take lo a @ v @ drop (lo + k) a)
         else if length v = 1 then Inr (take lo a @ replicate k (hd v) @ drop (lo + k) a)
         else Inl ValueError)"

text \<open>\<open>np.max\<close> of an array; the empty array raises ValueError.\<close>

definition np_max :: "real list \<Rightarrow> py_error + real" where
  "np_max a = (case a of [] \<Rightarrow> Inl ValueError | x # xs \<Rightarrow> Inr (fold max xs x))"

text \<open>
  The item assignment \<open>a[i] = v\<close> with an integer index: a negative index counts from
  the end, an index outside the array raises IndexError.
\<close>

definition np_setitem :: "real list \<Rightarrow> int \<Rightarrow> real \<Rightarrow> py_error + real list" where
  "np_setitem a i v =
     (let n = int (length a); j = (if i < 0 then i + n else i)
      in if 0 \<le> j \<and> j < n then Inr (a[nat j := v]) else Inl IndexError)"

text \<open>
  \<open>x % m\<close> on floats, in Python and in numpy alike: the C remainder \<open>fmod(x, m)\<close>,
  which has the sign of \<open>x\<close> and is exact, and then, when it is not zero and its sign
  is not that of \<open>m\<close>, the binary64 sum of it and \<open>m\<close>. The divisor is never zero:
  the source takes the remainder by the literal 360 only.
\<close>

definition py_fmod :: "real \<Rightarrow> real \<Rightarrow> real" where
  "py_fmod x m =
     (let r = x - m * of_int (py_int (x / m))
      in if r \<noteq> 0 \<and> (m < 0) \<noteq> (r < 0) then fl64 (r + m) else r)"

text \<open>\<open>np.radians\<close>, \<open>np.degrees\<close> and \<open>np.arctan2(y, x)\<close>.\<close>

definition np_radians :: "real \<Rightarrow> real" where
  "np_radians d = d * pi / 180"

definition np_degrees :: "real \<Rightarrow> real" where
  "np_degrees r = r * 180 / pi"

definition np_arctan2 :: "real \<Rightarrow> real \<Rightarrow> real" where
  "np_arctan2 y x =
     (if 0 < x then arctan (y / x)
      else if x < 0 then (if 0 \<le> y then arctan (y / x) + pi else arctan (y / x) - pi)
      else if 0 < y then pi / 2 else if y < 0 then - (pi / 2) else 0)"

text \<open>
  \<open>scipy.fft.fft(x, n)\<close> of a real array: the array is cut or padded with zeros to
  \<open>n\<close> points and its discrete Fourier transform is returned; \<open>n = 0\<close> raises
  ValueError. \<open>scipy.fft.ifft(X)\<close> is the inverse transform, and raises on the empty
  array.
\<close>

definition dft :: "complex list \<Rightarrow> complex list" where
  "dft x =
     (let n = length x
      in map (\<lambda>k. \<Sum>j\<leftarrow>[0..<n]. x ! j * cis (- (2 * pi * real k * real j / real n))) [0..<n])"

definition idft :: "complex list \<Rightarrow> complex list" where
  "idft X =
     (let n = length X
      in map (\<lambda>j. (\<Sum>k\<leftarrow>[0..<n]. X ! k * cis (2 * pi * real k * real j / real n)) / of_nat n)
           [0..<n])"

definition scipy_fft :: "real list \<Rightarrow> nat \<Rightarrow> py_error + complex list" where
  "scipy_fft x n =
     (if n < 1 then Inl ValueError
      else Inr (dft (map complex_of_real (take n (x @ replicate (n - length x) 0)))))"

definition scipy_ifft :: "complex list \<Rightarrow> py_error + complex list" where
  "scipy_ifft X = (if X = [] then Inl ValueError else Inr (idft X))"

section \<open>audio\_engine.py: AudioSource\<close>

record AudioSource =
  name :: string
  pos :: "real list"
  audio_data :: "real list"
  sample_rate :: nat
  ptr :: nat

text \<open>
  \<^verbatim>\<open>
  def get_next_chunk(self, chunk_size):
      chunk = self.audio_data[self.ptr : self.ptr + chunk_size]
      self.ptr += chunk_size
      if self.ptr + chunk_size >= len(self.audio_data):
          self.ptr = 0
      if len(chunk) < chunk_size:
          chunk = np.pad(chunk, (0, chunk_size - len(chunk)))
      return chunk
  \<close>
  The slice of a list by two non-negative bounds is \<open>take\<close> after \<open>drop\<close>. The
  function returns the chunk together with the source after the call.
\<close>

definition get_next_chunk :: "AudioSource \<Rightarrow> nat \<Rightarrow> real list \<times> AudioSource" where
  "get_next_chunk s chunk_size =
     (let chunk = take chunk_size (drop (ptr s) (audio_data s));
          p1 = ptr s + chunk_size;
          p2 = (if p1 + chunk_size \<ge> length (audio_data s) then 0 else p1);
          chunk' = (if length chunk < chunk_size
                    then np_pad_right chunk (chunk_size - length chunk) else chunk)
      in (chunk', s\<lparr>ptr := p2\<rparr>))"

text \<open>The chunks delivered by \<open>k\<close> successive calls.\<close>

fun next_chunks :: "nat \<Rightarrow> AudioSource \<Rightarrow> nat \<Rightarrow> real list list" where
  "next_chunks 0 s chunk_size = []"
| "next_chunks (Suc k) s chunk_size =
     (let (c, s') = get_next_chunk s chunk_size in c # next_chunks k s' chunk_size)"

section \<open>eq\_reverb.py: EnvironmentDSP\<close>

record EnvironmentDSP =
  sample_rate_env :: nat
  low_gain :: real
  mid_gain :: real
  high_gain :: real
  reverb_decay :: real
  reverb_buffer :: "real list"
  ptr_env :: int

text \<open>
  \<^verbatim>\<open>
  def __init__(self, sample_rate=96000):
      self.sample_rate = sample_rate
      self.low_gain = 1.0; self.mid_gain = 1.0; self.high_gain = 1.0
      self.reverb_decay = 0.4
      self.reverb_buffer = np.zeros(int(sample_rate * 0.5))
      self.ptr = 0
  \<close>
  The constructor checks nothing and has no parameter for the block size. The fields
  \<open>sample_rate\<close> and \<open>ptr\<close> carry the suffix \<open>_env\<close> here, apart from those of
  AudioSource.
\<close>

definition EnvironmentDSP_init :: "nat \<Rightarrow> EnvironmentDSP" where
  "EnvironmentDSP_init sr =
     \<lparr>sample_rate_env = sr, low_gain = 1, mid_gain = 1, high_gain = 1,
      reverb_decay = 0.4,
      reverb_buffer = np_zeros (nat (py_int (real sr * 0.5))),
      ptr_env = 0\<rparr>"

text \<open>
  \<^verbatim>\<open>
  def apply_eq(self, data):
      return data * (self.low_gain * 0.4 + self.mid_gain * 0.4 + self.high_gain * 0.2)
  \<close>
\<close>

definition apply_eq :: "EnvironmentDSP \<Rightarrow> real list \<Rightarrow> real list" where
  "apply_eq env data =
     map (\<lambda>x. x * (low_gain env * 0.4 + mid_gain env * 0.4 + high_gain env * 0.2)) data"

text \<open>
  \<^verbatim>\<open>
  def apply_doppler(self, audio_chunk, relative_velocity):
      c = 343.0
      factor = c / (c + relative_velocity)
      if abs(factor - 1.0) < 0.001:
          return audio_chunk
      num_samples = int(len(audio_chunk) * factor)
      if num_samples <= 0: return audio_chunk
      resampled = signal.resample(audio_chunk, num_samples)
      if len(resampled) > len(audio_chunk):
          return resampled[:len(audio_chunk)]
      else:
          return np.pad(resampled, (0, len(audio_chunk) - len(resampled)))
  \<close>
  \<open>signal.resample\<close> belongs to scipy, not to the repository: it is the parameter
  \<open>resample\<close>. The velocity is a Python float, so a zero divisor raises.
\<close>

definition apply_doppler ::
  "(real list \<Rightarrow> nat \<Rightarrow> real list) \<Rightarrow> real list \<Rightarrow> real \<Rightarrow> py_error + real list" where
  "apply_doppler resample audio_chunk relative_velocity =
     (let c = 343 in
      if c + relative_velocity = 0 then Inl ZeroDivisionError
      else let factor = c / (c + relative_velocity) in
        if \<bar>factor - 1\<bar> < 0.001 then Inr audio_chunk
        else let num_samples = py_int (real (length audio_chunk) * factor) in
          if num_samples \<le> 0 then Inr audio_chunk
          else let resampled = resample audio_chunk (nat num_samples) in
            if length resampled > length audio_chunk
            then Inr (take (length audio_chunk) resampled)
            else Inr (np_pad_right resampled (length audio_chunk - length resampled)))"

text \<open>
  \<^verbatim>\<open>
  def apply_reverb(self, data):
      out = data + self.reverb_buffer[self.ptr : self.ptr + len(data)] * self.reverb_decay
      self.reverb_buffer[self.ptr : self.ptr + len(data)] = data
      self.ptr = (self.ptr + len(data)) % (len(self.reverb_buffer) - len(data))
      return out
  \<close>
  The object has one buffer and one cursor. The call returns the output block and the
  object after the call; a call that raises returns the error only. Python's \<open>%\<close> on
  integers is \<open>mod\<close> (the sign of the divisor), and raises on a zero divisor.
\<close>

definition apply_reverb :: "EnvironmentDSP \<Rightarrow> real list \<Rightarrow> py_error + (real list \<times> EnvironmentDSP)" where
  "apply_reverb env data =
     (let p = ptr_env env; n = int (length data); buf = reverb_buffer env in
      case np_elementwise (+) data (map (\<lambda>b. b * reverb_decay env) (py_slice buf p (p + n))) of
        Inl e \<Rightarrow> Inl e
      | Inr out \<Rightarrow>
         (case np_slice_assign buf p (p + n) data of
            Inl e \<Rightarrow> Inl e
          | Inr buf' \<Rightarrow>
             if int (length buf) - n = 0 then Inl ZeroDivisionError
             else Inr (out, env\<lparr>reverb_buffer := buf',
                                 ptr_env := (p + n) mod (int (length buf) - n)\<rparr>)))"

section \<open>crosstalk.py: CrosstalkCanceller\<close>

text \<open>
  The field \<open>c\<close> of the class (the speed of sound) is \<open>c_sound\<close> here. The
  constructor's defaults are 1.5 for both distances.
\<close>

record CrosstalkCanceller =
  c_sound :: real
  d_direct :: real
  d_cross :: real
  delta_t :: real
  alpha :: real

definition CrosstalkCanceller_init :: "real \<Rightarrow> real \<Rightarrow> CrosstalkCanceller" where
  "CrosstalkCanceller_init speaker_distance_m listener_distance_m =
     (let dc = sqrt (listener_distance_m ^ 2 + speaker_distance_m ^ 2)
      in \<lparr>c_sound = 343, d_direct = listener_distance_m, d_cross = dc,
          delta_t = (dc - listener_distance_m) / 343, alpha = 0.7\<rparr>)"

text \<open>
  \<^verbatim>\<open>
  def process(self, l_in, r_in):
      l_out = l_in * 1.1 - r_in * self.alpha * 0.5
      r_out = r_in * 1.1 - l_in * self.alpha * 0.5
      max_val = np.max(np.abs([l_out, r_out]))
      if max_val > 1.0:
          l_out /= max_val
          r_out /= max_val
      return l_out, r_out
  \<close>
  Both outputs have the broadcast shape of the two inputs, so \<open>[l_out, r_out]\<close> is a
  two-row array and its maximum runs over the entries of both rows. The method reads the
  object and does not change it.
\<close>

definition process_ctc ::
  "CrosstalkCanceller \<Rightarrow> real list \<Rightarrow> real list \<Rightarrow> py_error + (real list \<times> real list)" where
  "process_ctc ctc l_in r_in =
     (case np_elementwise (-) (map (\<lambda>x. x * 1.1) l_in) (map (\<lambda>x. x * alpha ctc * 0.5) r_in) of
        Inl e \<Rightarrow> Inl e
      | Inr l_out \<Rightarrow>
         (case np_elementwise (-) (map (\<lambda>x. x * 1.1) r_in) (map (\<lambda>x. x * alpha ctc * 0.5) l_in) of
            Inl e \<Rightarrow> Inl e
          | Inr r_out \<Rightarrow>
             (case np_max (map abs (l_out @ r_out)) of
                Inl e \<Rightarrow> Inl e
              | Inr max_val \<Rightarrow>
                 if max_val > 1
                 then Inr (map (\<lambda>x. x / max_val) l_out, map (\<lambda>x. x / max_val) r_out)
                 else Inr (l_out, r_out))))"

section \<open>hrtf\_engine.py: HRTF\_Engine\<close>

type_synonym spectra = "complex list \<times> complex list"

text \<open>
  The database is a dictionary of dictionaries: elevation in degrees, then azimuth in
  degrees, to the pair of spectra.
\<close>

record HRTF_Engine =
  sample_rate_hrtf :: nat
  fft_size :: nat
  num_azimuth :: nat
  num_elevation :: nat
  filter_length :: nat
  hrtf_db :: "int \<rightharpoonup> (int \<rightharpoonup> spectra)"

text \<open>
  The body of the inner loop of \<open>_generate_synthetic_hrtf\<close> for the azimuth index
  \<open>az\<close>:
  \<^verbatim>\<open>
  azimuth = az * 15
  r = 0.0875; c = 343.0
  theta = np.radians(azimuth % 180)
  itd_sec = (r/c) * (theta + np.sin(theta))
  if azimuth > 180: itd_sec = -itd_sec
  itd_samples = int(round(itd_sec * self.sample_rate))
  ild_factor = 0.5 + 0.5 * np.cos(np.radians(azimuth))
  \<close>
\<close>

definition itd_samples_of :: "nat \<Rightarrow> nat \<Rightarrow> int" where
  "itd_samples_of sr az =
     (let azimuth = az * 15;
          theta = np_radians (real (azimuth mod 180));
          itd_sec = (0.0875 / 343) * (theta + sin theta);
          itd_sec' = (if azimuth > 180 then - itd_sec else itd_sec)
      in py_round (itd_sec' * real sr))"

definition ild_factor_of :: "nat \<Rightarrow> real" where
  "ild_factor_of az = 0.5 + 0.5 * cos (np_radians (real (az * 15)))"

text \<open>
  \<^verbatim>\<open>
  t = np.arange(self.filter_length)
  ir += 0.05 * np.exp(-t/100) * np.sin(2 * np.pi * 7000 * t / self.sample_rate)
  \<close>
\<close>

definition hf_features :: "nat \<Rightarrow> nat \<Rightarrow> real list" where
  "hf_features sr flen =
     map (\<lambda>t. 0.05 * exp (- real t / 100) * sin (2 * pi * 7000 * real t / real sr)) [0..<flen]"

text \<open>
  \<^verbatim>\<open>
  ir_l = np.zeros(self.filter_length); ir_r = np.zeros(self.filter_length)
  base_idx = 100
  idx_l = base_idx + (itd_samples // 2 if itd_samples > 0 else 0)
  idx_r = base_idx + (-itd_samples // 2 if itd_samples < 0 else 0)
  ir_l[idx_l] = 1.0 * (1.0 if itd_samples >= 0 else ild_factor)
  ir_r[idx_r] = 1.0 * (1.0 if itd_samples <= 0 else ild_factor)
  ir_l += ...; ir_r += ...
  db[elevation][azimuth] = (fft(ir_l, self.fft_size), fft(ir_r, self.fft_size))
  \<close>
  The pair of spectra of one direction. The item assignments raise IndexError when the
  index leaves the impulse response, the transform raises ValueError on \<open>fft_size = 0\<close>.
  With \<open>sample_rate = 0\<close> the code divides an array by zero and stores NaN; the model
  has no such value and every statement below about the database takes a positive rate.
\<close>

definition hrtf_pair :: "nat \<Rightarrow> nat \<Rightarrow> nat \<Rightarrow> nat \<Rightarrow> py_error + spectra" where
  "hrtf_pair sr fftn flen az =
     (let itd_samples = itd_samples_of sr az;
          ild_factor = ild_factor_of az;
          idx_l = 100 + (if itd_samples > 0 then itd_samples div 2 else 0);
          idx_r = 100 + (if itd_samples < 0 then (- itd_samples) div 2 else 0)
      in case np_setitem (np_zeros flen) idx_l (1 * (if itd_samples \<ge> 0 then 1 else ild_factor)) of
           Inl e \<Rightarrow> Inl e
         | Inr ir_l \<Rightarrow>
            (case np_setitem (np_zeros flen) idx_r (1 * (if itd_samples \<le> 0 then 1 else ild_factor)) of
               Inl e \<Rightarrow> Inl e
             | Inr ir_r \<Rightarrow>
                (case scipy_fft (map2 (+) ir_l (hf_features sr flen)) fftn of
                   Inl e \<Rightarrow> Inl e
                 | Inr sp_l \<Rightarrow>
                    (case scipy_fft (map2 (+) ir_r (hf_features sr flen)) fftn of
                       Inl e \<Rightarrow> Inl e
                     | Inr sp_r \<Rightarrow> Inr (sp_l, sp_r)))))"

text \<open>
  The inner loop \<open>for az in range(self.num_azimuth)\<close> fills the row of one elevation,
  the outer loop \<open>for el in range(self.num_elevation)\<close> stores the row under
  \<open>el * 15 - 90\<close>. An exception leaves both loops.
\<close>

fun generate_row ::
  "nat \<Rightarrow> nat \<Rightarrow> nat \<Rightarrow> nat list \<Rightarrow> (int \<rightharpoonup> spectra) \<Rightarrow> py_error + (int \<rightharpoonup> spectra)" where
  "generate_row sr fftn flen [] row = Inr row"
| "generate_row sr fftn flen (az # azs) row =
     (case hrtf_pair sr fftn flen az of
        Inl e \<Rightarrow> Inl e
      | Inr v \<Rightarrow> generate_row sr fftn flen azs (row(int az * 15 \<mapsto> v)))"

fun generate_rows ::
  "nat \<Rightarrow> nat \<Rightarrow> nat \<Rightarrow> nat \<Rightarrow> nat list \<Rightarrow> (int \<rightharpoonup> (int \<rightharpoonup> spectra))
     \<Rightarrow> py_error + (int \<rightharpoonup> (int \<rightharpoonup> spectra))" where
  "generate_rows sr fftn flen naz [] db = Inr db"
| "generate_rows sr fftn flen naz (el # els) db =
     (case generate_row sr fftn flen [0..<naz] Map.empty of
        Inl e \<Rightarrow> Inl e
      | Inr row \<Rightarrow> generate_rows sr fftn flen naz els (db(int el * 15 - 90 \<mapsto> row)))"

definition generate_synthetic_hrtf ::
  "nat \<Rightarrow> nat \<Rightarrow> nat \<Rightarrow> nat \<Rightarrow> nat \<Rightarrow> py_error + (int \<rightharpoonup> (int \<rightharpoonup> spectra))" where
  "generate_synthetic_hrtf sr fftn flen naz nel =
     generate_rows sr fftn flen naz [0..<nel] Map.empty"

text \<open>
  \<^verbatim>\<open>
  def __init__(self, sample_rate=96000, fft_size=2048):
      self.sample_rate = sample_rate; self.fft_size = fft_size
      self.num_azimuth = 24; self.num_elevation = 12
      self.filter_length = 1024
      self.hrtf_db = self._generate_synthetic_hrtf()
  \<close>
\<close>

definition HRTF_Engine_init :: "nat \<Rightarrow> nat \<Rightarrow> py_error + HRTF_Engine" where
  "HRTF_Engine_init sr fftn =
     (case generate_synthetic_hrtf sr fftn 1024 24 12 of
        Inl e \<Rightarrow> Inl e
      | Inr db \<Rightarrow> Inr \<lparr>sample_rate_hrtf = sr, fft_size = fftn, num_azimuth = 24,
                        num_elevation = 12, filter_length = 1024, hrtf_db = db\<rparr>)"

text \<open>
  \<^verbatim>\<open>
  def get_nearest_hrtf(self, azimuth, elevation):
      azimuth = azimuth % 360
      az_idx = int(round(azimuth / 15.0)) % 24
      el_idx = int(round((elevation + 90) / 15.0))
      el_idx = max(0, min(11, el_idx))
      target_az = az_idx * 15
      target_el = el_idx * 15 - 90
      return self.hrtf_db[target_el][target_az]
  \<close>
  The two indices, the grid direction they stand for, and the lookup, which raises
  KeyError on a missing key. The remainder, the sum and the two quotients are binary64
  operations; \<open>round\<close> and \<open>int\<close> are exact.
\<close>

definition az_idx_of :: "real \<Rightarrow> int" where
  "az_idx_of azimuth = py_round (fl64 (py_fmod azimuth 360 / 15)) mod 24"

definition el_idx_of :: "real \<Rightarrow> int" where
  "el_idx_of elevation = max 0 (min 11 (py_round (fl64 (fl64 (elevation + 90) / 15))))"

definition target_az_of :: "real \<Rightarrow> int" where
  "target_az_of azimuth = az_idx_of azimuth * 15"

definition target_el_of :: "real \<Rightarrow> int" where
  "target_el_of elevation = el_idx_of elevation * 15 - 90"

definition get_nearest_hrtf :: "HRTF_Engine \<Rightarrow> real \<Rightarrow> real \<Rightarrow> py_error + spectra" where
  "get_nearest_hrtf e azimuth elevation =
     (case hrtf_db e (target_el_of elevation) of
        None \<Rightarrow> Inl KeyError
      | Some row \<Rightarrow>
         (case row (target_az_of azimuth) of None \<Rightarrow> Inl KeyError | Some v \<Rightarrow> Inr v))"

text \<open>
  \<^verbatim>\<open>
  def spatialize_source(self, audio_chunk, azimuth, elevation):
      ir_fft_l, ir_fft_r = self.get_nearest_hrtf(azimuth, elevation)
      source_fft = fft(audio_chunk, self.fft_size)
      out_l = np.real(ifft(source_fft * ir_fft_l))[:len(audio_chunk)]
      out_r = np.real(ifft(source_fft * ir_fft_r))[:len(audio_chunk)]
      return out_l, out_r
  \<close>
\<close>

definition spatialize_source ::
  "HRTF_Engine \<Rightarrow> real list \<Rightarrow> real \<Rightarrow> real \<Rightarrow> py_error + (real list \<times> real list)" where
  "spatialize_source e audio_chunk azimuth elevation =
     (case get_nearest_hrtf e azimuth elevation of
        Inl err \<Rightarrow> Inl err
      | Inr (ir_fft_l, ir_fft_r) \<Rightarrow>
         (case scipy_fft audio_chunk (fft_size e) of
            Inl err \<Rightarrow> Inl err
          | Inr source_fft \<Rightarrow>
             (case np_elementwise (*) source_fft ir_fft_l of
                Inl err \<Rightarrow> Inl err
              | Inr prod_l \<Rightarrow>
                 (case scipy_ifft prod_l of
                    Inl err \<Rightarrow> Inl err
                  | Inr y_l \<Rightarrow>
                     (case np_elementwise (*) source_fft ir_fft_r of
                        Inl err \<Rightarrow> Inl err
                      | Inr prod_r \<Rightarrow>
                         (case scipy_ifft prod_r of
                            Inl err \<Rightarrow> Inl err
                          | Inr y_r \<Rightarrow>
                             Inr (take (length audio_chunk) (map Re y_l),
                                  take (length audio_chunk) (map Re y_r))))))))"

section \<open>dsp\_pipeline.py: DSPPipeline\<close>

type_synonym vec3 = "real \<times> real \<times> real"

record DSPPipeline =
  hrtf :: HRTF_Engine
  ctc :: CrosstalkCanceller
  env :: EnvironmentDSP
  chunk_size :: nat

text \<open>
  \<^verbatim>\<open>
  def __init__(self, sample_rate=96000, chunk_size=1024):
      self.hrtf = HRTF_Engine(sample_rate, chunk_size*2)
      self.ctc = CrosstalkCanceller()
      self.env = EnvironmentDSP(sample_rate)
      self.chunk_size = chunk_size
  \<close>
  The only exceptions are those of the HRTF engine's constructor.
\<close>

definition DSPPipeline_init :: "nat \<Rightarrow> nat \<Rightarrow> py_error + DSPPipeline" where
  "DSPPipeline_init sr cs =
     (case HRTF_Engine_init sr (cs * 2) of
        Inl e \<Rightarrow> Inl e
      | Inr h \<Rightarrow> Inr \<lparr>hrtf = h, ctc = CrosstalkCanceller_init 1.5 1.5,
                       env = EnvironmentDSP_init sr, chunk_size = cs\<rparr>)"

text \<open>
  The loop of \<open>process\<close> over the sources, on the two mix buffers:
  \<^verbatim>\<open>
  for name, (chunk, source_pos) in sources_data.items():
      rel_pos = source_pos - listener_pos
      local_pos = inv_quat.rotate(rel_pos)
      dist = np.linalg.norm(local_pos)
      if dist < 0.1: dist = 0.1
      azimuth = np.degrees(np.arctan2(local_pos[0], local_pos[1]))
      elevation = np.degrees(np.arcsin(local_pos[2] / dist))
      attenuation = 1.0 / (dist + 1.0)
      chunk = chunk * attenuation
      processed_chunk = self.env.apply_doppler(chunk, 0.0)
      l, r = self.hrtf.spatialize_source(processed_chunk, azimuth, elevation)
      mixed_l += l
      mixed_r += r
  \<close>
  The dictionary is the list of its items in their order. The quaternion class belongs
  to pyquaternion, not to the repository: \<open>rot\<close> is the rotation
  \<open>listener_quat.inverse.rotate\<close>, a parameter.
\<close>

fun mix_sources ::
  "(vec3 \<Rightarrow> vec3) \<Rightarrow> (real list \<Rightarrow> nat \<Rightarrow> real list) \<Rightarrow> DSPPipeline \<Rightarrow> vec3
     \<Rightarrow> (string \<times> real list \<times> vec3) list \<Rightarrow> real list \<times> real list
     \<Rightarrow> py_error + (real list \<times> real list)" where
  "mix_sources rot resample p listener_pos [] (mixed_l, mixed_r) = Inr (mixed_l, mixed_r)"
| "mix_sources rot resample p (px, py, pz) ((nm, chunk, (sx, sy, sz)) # rest) (mixed_l, mixed_r) =
     (let (x, y, z) = rot (sx - px, sy - py, sz - pz);
          d0 = sqrt (x ^ 2 + y ^ 2 + z ^ 2);
          dist = (if d0 < 0.1 then 0.1 else d0);
          azimuth = np_degrees (np_arctan2 x y);
          elevation = np_degrees (arcsin (z / dist));
          attenuation = 1 / (dist + 1)
      in case apply_doppler resample (map (\<lambda>v. v * attenuation) chunk) 0 of
           Inl e \<Rightarrow> Inl e
         | Inr processed_chunk \<Rightarrow>
            (case spatialize_source (hrtf p) processed_chunk azimuth elevation of
               Inl e \<Rightarrow> Inl e
             | Inr (l, r) \<Rightarrow>
                (case np_iadd mixed_l l of
                   Inl e \<Rightarrow> Inl e
                 | Inr mixed_l' \<Rightarrow>
                    (case np_iadd mixed_r r of
                       Inl e \<Rightarrow> Inl e
                     | Inr mixed_r' \<Rightarrow>
                        mix_sources rot resample p (px, py, pz) rest (mixed_l', mixed_r')))))"

text \<open>
  The post-mix stage of \<open>process\<close>, on the one EnvironmentDSP object of the pipeline:
  \<^verbatim>\<open>
  mixed_l = self.env.apply_reverb(self.env.apply_eq(mixed_l))
  mixed_r = self.env.apply_reverb(self.env.apply_eq(mixed_r))
  \<close>
\<close>

definition eq_reverb_stage ::
  "EnvironmentDSP \<Rightarrow> real list \<Rightarrow> real list \<Rightarrow> py_error + (real list \<times> real list \<times> EnvironmentDSP)" where
  "eq_reverb_stage e mixed_l mixed_r =
     (case apply_reverb e (apply_eq e mixed_l) of
        Inl err \<Rightarrow> Inl err
      | Inr (out_l, e1) \<Rightarrow>
         (case apply_reverb e1 (apply_eq e1 mixed_r) of
            Inl err \<Rightarrow> Inl err
          | Inr (out_r, e2) \<Rightarrow> Inr (out_l, out_r, e2)))"

text \<open>
  \<^verbatim>\<open>
  def process(self, sources_data, listener_pos, listener_quat):
      mixed_l = np.zeros(self.chunk_size)
      mixed_r = np.zeros(self.chunk_size)
      inv_quat = listener_quat.inverse
      for ...                                   # the loop above
      mixed_l = self.env.apply_reverb(self.env.apply_eq(mixed_l))
      mixed_r = self.env.apply_reverb(self.env.apply_eq(mixed_r))
      final_l, final_r = self.ctc.process(mixed_l, mixed_r)
      return final_l, final_r
  \<close>
  The call returns the two output blocks and the pipeline after the call.
\<close>

definition process ::
  "('q \<Rightarrow> vec3 \<Rightarrow> vec3) \<Rightarrow> (real list \<Rightarrow> nat \<Rightarrow> real list) \<Rightarrow> DSPPipeline
     \<Rightarrow> (string \<times> real list \<times> vec3) list \<Rightarrow> vec3 \<Rightarrow> 'q
     \<Rightarrow> py_error + ((real list \<times> real list) \<times> DSPPipeline)" where
  "process inverse_rotate resample p sources_data listener_pos listener_quat =
     (case mix_sources (inverse_rotate listener_quat) resample p listener_pos sources_data
             (np_zeros (chunk_size p), np_zeros (chunk_size p)) of
        Inl e \<Rightarrow> Inl e
      | Inr (mixed_l, mixed_r) \<Rightarrow>
         (case eq_reverb_stage (env p) mixed_l mixed_r of
            Inl e \<Rightarrow> Inl e
          | Inr (rev_l, rev_r, env') \<Rightarrow>
             (case process_ctc (ctc p) rev_l rev_r of
                Inl e \<Rightarrow> Inl e
              | Inr (final_l, final_r) \<Rightarrow> Inr ((final_l, final_r), p\<lparr>env := env'\<rparr>))))"

text \<open>
  Successive blocks: each block is the sources' chunks with their positions and the
  listener's pose; the pipeline of one call is the pipeline of the next.
\<close>

fun render_blocks ::
  "('q \<Rightarrow> vec3 \<Rightarrow> vec3) \<Rightarrow> (real list \<Rightarrow> nat \<Rightarrow> real list) \<Rightarrow> DSPPipeline
     \<Rightarrow> ((string \<times> real list \<times> vec3) list \<times> vec3 \<times> 'q) list
     \<Rightarrow> py_error + ((real list \<times> real list) list \<times> DSPPipeline)" where
  "render_blocks inverse_rotate resample p [] = Inr ([], p)"
| "render_blocks inverse_rotate resample p ((sources_data, listener_pos, listener_quat) # blocks) =
     (case process inverse_rotate resample p sources_data listener_pos listener_quat of
        Inl e \<Rightarrow> Inl e
      | Inr (out, p') \<Rightarrow>
         (case render_blocks inverse_rotate resample p' blocks of
            Inl e \<Rightarrow> Inl e
          | Inr (outs, p'') \<Rightarrow> Inr (out # outs, p'')))"

section \<open>sensor\_fusion.py: KalmanFilter3D\<close>

text \<open>
  A matrix is the list of its rows; \<open>np_eye n c\<close> is \<open>np.eye(n) * c\<close>. The entries
  that the constructor stores are the decimal literals of the source.
\<close>

type_synonym matrix = "real list list"

definition np_eye :: "nat \<Rightarrow> real \<Rightarrow> matrix" where
  "np_eye n c = map (\<lambda>i. map (\<lambda>j. if i = j then c else 0) [0..<n]) [0..<n]"

record KalmanFilter3D =
  dt :: real
  pos_state :: "real list"
  pos_P :: matrix
  pos_Q :: matrix
  pos_R :: matrix
  pos_F :: matrix
  pos_H :: matrix

text \<open>
  \<^verbatim>\<open>
  def __init__(self, dt=0.01):
      self.dt = dt
      self.pos_state = np.zeros(6)
      self.pos_P = np.eye(6) * 1.0
      self.pos_Q = np.eye(6) * 0.01
      # Measurement Noise (UWB +-15cm)
      self.pos_R = np.eye(3) * 0.15
      self.pos_F = np.eye(6)
      self.pos_F[0, 3] = dt; self.pos_F[1, 4] = dt; self.pos_F[2, 5] = dt
      self.pos_H = np.zeros((3, 6))
      self.pos_H[0, 0] = 1; self.pos_H[1, 1] = 1; self.pos_H[2, 2] = 1
  \<close>
\<close>

definition set_entry :: "matrix \<Rightarrow> nat \<Rightarrow> nat \<Rightarrow> real \<Rightarrow> matrix" where
  "set_entry A i j v = A[i := (A ! i)[j := v]]"

definition KalmanFilter3D_init :: "real \<Rightarrow> KalmanFilter3D" where
  "KalmanFilter3D_init step =
     \<lparr>dt = step,
      pos_state = np_zeros 6,
      pos_P = np_eye 6 1,
      pos_Q = np_eye 6 0.01,
      pos_R = np_eye 3 0.15,
      pos_F = set_entry (set_entry (set_entry (np_eye 6 1) 0 3 step) 1 4 step) 2 5 step,
      pos_H = set_entry (set_entry (set_entry (replicate 3 (replicate 6 0)) 0 0 1) 1 1 1) 2 2 1\<rparr>"

section \<open>Notions used in the statements\<close>

text \<open>A source of four samples, at the position of the source Leaves.\<close>

definition four_samples :: AudioSource where
  "four_samples = \<lparr>name = ''Leaves'', pos = [0, 1, 0], audio_data = [1, 2, 3, 4],
                    sample_rate = 96000, ptr = 0\<rparr>"

text \<open>Every row of a database holds the azimuths \<open>0, 15, ...\<close> of the grid.\<close>

definition full_rows :: "nat \<Rightarrow> (int \<rightharpoonup> (int \<rightharpoonup> spectra)) \<Rightarrow> bool" where
  "full_rows naz db = (\<forall>k row. db k = Some row \<longrightarrow> dom row = (\<lambda>az. int az * 15) ` {0..<naz})"

text \<open>Every pair of spectra of a row has the length of the transform.\<close>

definition spectra_of_length :: "nat \<Rightarrow> (int \<rightharpoonup> spectra) \<Rightarrow> bool" where
  "spectra_of_length n row = (\<forall>k a b. row k = Some (a, b) \<longrightarrow> length a = n \<and> length b = n)"

text \<open>
  A pipeline that is ready to render blocks of \<open>N\<close> frames with a silent reverb
  buffer, and a set of sources that all supply silence.
\<close>

definition silent_ready :: "nat \<Rightarrow> DSPPipeline \<Rightarrow> bool" where
  "silent_ready N p \<longleftrightarrow>
     chunk_size p = N \<and> 1 \<le> N \<and> fft_size (hrtf p) = 2 * N
     \<and> (\<forall>az el. \<exists>a b. get_nearest_hrtf (hrtf p) az el = Inr (a, b)
                        \<and> length a = 2 * N \<and> length b = 2 * N)
     \<and> (\<exists>B. reverb_buffer (env p) = np_zeros B \<and> 0 \<le> ptr_env (env p)
             \<and> ptr_env (env p) < int B - int N)"

definition silent_sources :: "nat \<Rightarrow> (string \<times> real list \<times> vec3) list \<Rightarrow> bool" where
  "silent_sources N srcs \<longleftrightarrow> (\<forall>s \<in> set srcs. fst (snd s) = np_zeros N)"

section \<open>Properties of AudioSource\<close>

lemma four_samples_step: "get_next_chunk four_samples 2 = ([1, 2], four_samples)"
  by (simp add: get_next_chunk_def four_samples_def np_pad_right_def)

lemma four_samples_chunks: "next_chunks k four_samples 2 = replicate k [1, 2]"
  by (induction k) (simp_all add: four_samples_step)

text \<open>
  C1. The claim: when cursor + n \<le> N the call returns samples[cursor : cursor+n] and
  advances the cursor by n, and every buffer index is delivered before the loop restarts.
  The code tests \<open>ptr + chunk_size >= len\<close> after it has already advanced the cursor,
  so it wraps one block early. On a source of four samples read in chunks of two, the
  first call (cursor + n = 2 \<le> 4) returns the first two samples and leaves the cursor at
  0 instead of 2; every later call does the same, and the samples at indices 2 and 3 are
  never delivered.
\<close>

theorem get_next_chunk_wraps_early:
  "ptr four_samples + 2 \<le> length (audio_data four_samples)
   \<and> fst (get_next_chunk four_samples 2) = [1, 2]
   \<and> ptr (snd (get_next_chunk four_samples 2)) = 0
   \<and> (\<forall>k. next_chunks k four_samples 2 = replicate k [1, 2])"
  by (simp add: four_samples_step four_samples_chunks) (simp add: four_samples_def)

section \<open>Properties of EnvironmentDSP.apply\_eq\<close>

text \<open>
  C7. Identity EQ: when the three band gains are 1.0, the scalar of \<open>apply_eq\<close> is
  0.4 + 0.4 + 0.2 = 1 and every input block is returned unchanged.
\<close>

theorem apply_eq_identity:
  "low_gain e = 1 \<Longrightarrow> mid_gain e = 1 \<Longrightarrow> high_gain e = 1 \<Longrightarrow> apply_eq e x = x"
  by (simp add: apply_eq_def)

theorem apply_eq_identity_witness:
  "low_gain (EnvironmentDSP_init 96000) = 1 \<and> mid_gain (EnvironmentDSP_init 96000) = 1
   \<and> high_gain (EnvironmentDSP_init 96000) = 1
   \<and> apply_eq (EnvironmentDSP_init 96000) [0.5, - 0.25, 0] = [0.5, - 0.25, 0]"
  using apply_eq_identity [of "EnvironmentDSP_init 96000" "[0.5, - 0.25, 0]"]
  by (simp add: EnvironmentDSP_init_def)

section \<open>Properties of CrosstalkCanceller.process\<close>

lemma np_max_Max: "a \<noteq> [] \<Longrightarrow> np_max a = Inr (Max (set a))"
  by (cases a) (simp_all add: np_max_def Max.set_eq_fold [symmetric])

lemma np_max_append_commute: "np_max (a @ b) = np_max (b @ a)"
proof (cases "a @ b = []")
  case True
  then show ?thesis by simp
next
  case False
  then have "b @ a \<noteq> []" by auto
  then show ?thesis
    using np_max_Max [OF False] np_max_Max [of "b @ a"] by (simp add: Un_commute)
qed

text \<open>
  C8. CTC symmetry: if \<open>process(l, r)\<close> returns \<open>(L, R)\<close> then \<open>process(r, l)\<close>
  returns \<open>(R, L)\<close>. The two output rows are computed by the same expression with the
  inputs exchanged, and the peak is taken over both rows, so it is the same in both calls.
\<close>

theorem process_ctc_symmetric:
  "process_ctc c l r = Inr (L, R) \<Longrightarrow> process_ctc c r l = Inr (R, L)"
  unfolding process_ctc_def
  by (auto split: sum.splits if_splits simp: np_max_append_commute)

theorem process_ctc_symmetric_witness:
  "process_ctc (CrosstalkCanceller_init 1.5 1.5) [1, 0] [0, 2] = Inr ([1 / 2, - 7 / 22], [- 7 / 44, 1])
   \<and> process_ctc (CrosstalkCanceller_init 1.5 1.5) [0, 2] [1, 0] = Inr ([- 7 / 44, 1], [1 / 2, - 7 / 22])"
proof -
  have h: "process_ctc (CrosstalkCanceller_init 1.5 1.5) [1, 0] [0, 2]
             = Inr ([1 / 2, - 7 / 22], [- 7 / 44, 1])"
    by (simp add: process_ctc_def CrosstalkCanceller_init_def np_elementwise_def np_max_def Let_def)
  from process_ctc_symmetric [OF h] h show ?thesis by simp
qed

section \<open>Properties of HRTF\_Engine.get\_nearest\_hrtf\<close>

lemma py_round_near: "\<bar>x - of_int (py_round x)\<bar> \<le> 1 / 2"
proof -
  have "of_int \<lfloor>x\<rfloor> \<le> x" "x < of_int \<lfloor>x\<rfloor> + 1" by linarith+
  then show ?thesis by (auto simp: py_round_def Let_def)
qed

lemma py_round_unique: "\<bar>x - of_int n\<bar> < 1 / 2 \<Longrightarrow> py_round x = n"
proof -
  assume a: "\<bar>x - of_int n\<bar> < 1 / 2"
  have "\<bar>x - of_int (py_round x)\<bar> \<le> 1 / 2" by (rule py_round_near)
  with a have "\<bar>real_of_int (py_round x) - of_int n\<bar> < 1" by linarith
  then have "\<bar>py_round x - n\<bar> < 1" by linarith
  then show ?thesis by simp
qed

subsection \<open>The error of one binary64 rounding\<close>

lemma fl64_half_ulp:
  assumes "x \<noteq> 0"
  shows "\<bar>fl64 x - x\<bar> \<le> 2 powr (of_int (max (\<lfloor>log 2 \<bar>x\<bar>\<rfloor> - 52) (- 1074)) - 1)"
proof -
  define e where "e = max (\<lfloor>log 2 \<bar>x\<bar>\<rfloor> - 52) (- 1074)"
  define s :: real where "s = 2 powr of_int e"
  have s: "0 < s" by (simp add: s_def)
  have f: "fl64 x = of_int (py_round (x / s)) * s"
    using assms by (simp add: fl64_def Let_def s_def e_def)
  have "fl64 x - x = (of_int (py_round (x / s)) - x / s) * s"
    using s by (simp add: f field_simps)
  then have "\<bar>fl64 x - x\<bar> = \<bar>x / s - of_int (py_round (x / s))\<bar> * s"
    using s by (simp add: abs_mult abs_minus_commute)
  also have "\<dots> \<le> (1 / 2) * s"
    using s py_round_near [of "x / s"] by (intro mult_right_mono) simp_all
  also have "\<dots> = 2 powr (of_int e - 1)"
    by (simp add: s_def powr_diff)
  finally show ?thesis by (simp only: e_def)
qed

lemma fl64_near:
  assumes "\<bar>x\<bar> \<le> 2 ^ k"
  shows "\<bar>fl64 x - x\<bar> \<le> 2 ^ k / 2 ^ 53"
proof (cases "x = 0")
  case True
  then show ?thesis by (simp add: fl64_def)
next
  case False
  define l where "l = \<lfloor>log 2 \<bar>x\<bar>\<rfloor>"
  define e where "e = max (l - 52) (- 1074)"
  have "log 2 \<bar>x\<bar> \<le> real k" using assms False by (simp add: log_le_iff powr_realpow)
  then have "of_int l \<le> real k" unfolding l_def by linarith
  then have "real_of_int e - 1 \<le> real k - 53" by (simp add: e_def max_def)
  then have "(2::real) powr (of_int e - 1) \<le> 2 powr (real k - 53)"
    by simp
  also have "\<dots> = 2 ^ k / 2 ^ 53"
    by (simp add: powr_diff powr_realpow)
  finally have "(2::real) powr (of_int e - 1) \<le> 2 ^ k / 2 ^ 53" .
  moreover have "\<bar>fl64 x - x\<bar> \<le> 2 powr (of_int e - 1)"
    unfolding e_def l_def using False by (rule fl64_half_ulp)
  ultimately show ?thesis by (rule order_trans [rotated])
qed

text \<open>The bound at the magnitudes that the lookup meets, in decimal.\<close>

lemma fl64_near_dec:
  "\<bar>x\<bar> \<le> 16 \<Longrightarrow> \<bar>fl64 x - x\<bar> \<le> 2 / 1000000000000000"
  "\<bar>x\<bar> \<le> 32 \<Longrightarrow> \<bar>fl64 x - x\<bar> \<le> 4 / 1000000000000000"
  "\<bar>x\<bar> \<le> 128 \<Longrightarrow> \<bar>fl64 x - x\<bar> \<le> 2 / 100000000000000"
  "\<bar>x\<bar> \<le> 256 \<Longrightarrow> \<bar>fl64 x - x\<bar> \<le> 3 / 100000000000000"
  "\<bar>x\<bar> \<le> 512 \<Longrightarrow> \<bar>fl64 x - x\<bar> \<le> 6 / 100000000000000"
  "\<bar>x\<bar> \<le> 2048 \<Longrightarrow> \<bar>fl64 x - x\<bar> \<le> 3 / 10000000000000"
proof -
  show "\<bar>x\<bar> \<le> 16 \<Longrightarrow> \<bar>fl64 x - x\<bar> \<le> 2 / 1000000000000000"
    using fl64_near [of x 4] by simp
  show "\<bar>x\<bar> \<le> 32 \<Longrightarrow> \<bar>fl64 x - x\<bar> \<le> 4 / 1000000000000000"
    using fl64_near [of x 5] by simp
  show "\<bar>x\<bar> \<le> 128 \<Longrightarrow> \<bar>fl64 x - x\<bar> \<le> 2 / 100000000000000"
    using fl64_near [of x 7] by simp
  show "\<bar>x\<bar> \<le> 256 \<Longrightarrow> \<bar>fl64 x - x\<bar> \<le> 3 / 100000000000000"
    using fl64_near [of x 8] by simp
  show "\<bar>x\<bar> \<le> 512 \<Longrightarrow> \<bar>fl64 x - x\<bar> \<le> 6 / 100000000000000"
    using fl64_near [of x 9] by simp
  show "\<bar>x\<bar> \<le> 2048 \<Longrightarrow> \<bar>fl64 x - x\<bar> \<le> 3 / 10000000000000"
    using fl64_near [of x 11] by simp
qed

lemma abs_sum3:
  fixes a b c :: real
  assumes "\<bar>a\<bar> \<le> ea" "\<bar>b\<bar> \<le> eb" "\<bar>c\<bar> \<le> ec" "ea + 15 * eb + 15 * ec \<le> B"
  shows "\<bar>a + 15 * b + 15 * c\<bar> \<le> B"
proof -
  from assms(1-3) have "a \<le> ea" "- a \<le> ea" "b \<le> eb" "- b \<le> eb" "c \<le> ec" "- c \<le> ec"
    by (simp_all add: abs_le_iff)
  with assms(4) have "a + 15 * b + 15 * c \<le> B" "- (a + 15 * b + 15 * c) \<le> B" by linarith+
  then show ?thesis by (simp add: abs_le_iff)
qed

lemma abs_sum2:
  fixes a c :: real
  assumes "\<bar>a\<bar> \<le> ea" "\<bar>c\<bar> \<le> ec" "ea + 15 * ec \<le> B"
  shows "\<bar>a + 15 * c\<bar> \<le> B"
  using abs_sum3 [of a ea 0 0 c ec B] assms by simp

subsection \<open>The snapped direction\<close>

text \<open>
  The remainder by 360 is the request less a multiple of 360, up to one rounding of a
  sum below 360.
\<close>

lemma py_fmod_360:
  "\<exists>k::int. \<bar>py_fmod az 360 - (az - 360 * of_int k)\<bar> \<le> 6 / 100000000000000
            \<and> \<bar>py_fmod az 360\<bar> \<le> 361"
proof -
  define t where "t = py_int (az / 360)"
  define r where "r = az - 360 * of_int t"
  have range: "- 360 < r \<and> r < 360"
  proof (cases "0 \<le> az / 360")
    case True
    then have "t = \<lfloor>az / 360\<rfloor>" by (simp add: t_def py_int_def)
    then have "of_int t \<le> az / 360" "az / 360 < of_int t + 1" by linarith+
    then show ?thesis by (simp add: r_def field_simps)
  next
    case False
    then have "t = \<lceil>az / 360\<rceil>" by (simp add: t_def py_int_def)
    then have "az / 360 \<le> of_int t" "of_int t - 1 < az / 360" by linarith+
    then show ?thesis by (simp add: r_def field_simps)
  qed
  show ?thesis
  proof (cases "r < 0")
    case True
    then have m: "py_fmod az 360 = fl64 (r + 360)"
      by (simp add: py_fmod_def Let_def t_def [symmetric] r_def [symmetric])
    from range True have "\<bar>r + 360\<bar> \<le> 512" by linarith
    then have n: "\<bar>fl64 (r + 360) - (r + 360)\<bar> \<le> 6 / 100000000000000"
      by (rule fl64_near_dec)
    have "r + 360 = az - 360 * of_int (t - 1)" by (simp add: r_def)
    with n have "\<bar>py_fmod az 360 - (az - 360 * of_int (t - 1))\<bar> \<le> 6 / 100000000000000"
      by (simp only: m)
    moreover from n range True have "\<bar>py_fmod az 360\<bar> \<le> 361" unfolding m by linarith
    ultimately show ?thesis by blast
  next
    case False
    then have m: "py_fmod az 360 = r"
      by (simp add: py_fmod_def Let_def t_def [symmetric] r_def [symmetric])
    have "\<bar>py_fmod az 360 - (az - 360 * of_int t)\<bar> \<le> 6 / 100000000000000"
      by (simp add: m r_def)
    moreover from range have "\<bar>py_fmod az 360\<bar> \<le> 361" unfolding m by linarith
    ultimately show ?thesis by blast
  qed
qed

lemma target_az_near:
  "\<exists>j::int. \<bar>az - of_int (target_az_of az) - 360 * of_int j\<bar> \<le> 7.5 + 1 / 10 ^ 12"
proof -
  define m where "m = py_fmod az 360"
  define q where "q = fl64 (m / 15)"
  define r where "r = py_round q"
  define ta where "ta = target_az_of az"
  from py_fmod_360 [of az] obtain k :: int where
    k: "\<bar>m - (az - 360 * of_int k)\<bar> \<le> 6 / 100000000000000" and mb: "\<bar>m\<bar> \<le> 361"
    unfolding m_def by blast
  from mb have "\<bar>m / 15\<bar> \<le> 32" by simp
  then have qe: "\<bar>q - m / 15\<bar> \<le> 4 / 1000000000000000"
    unfolding q_def by (rule fl64_near_dec)
  have rn: "\<bar>q - of_int r\<bar> \<le> 1 / 2" unfolding r_def by (rule py_round_near)
  have t: "ta = 15 * r - 360 * (r div 24)"
    unfolding ta_def target_az_of_def az_idx_of_def m_def [symmetric] q_def [symmetric]
      r_def [symmetric]
    by (simp add: minus_mult_div_eq_mod [symmetric] algebra_simps)
  have eq: "az - of_int ta - 360 * of_int (k + r div 24)
        = (az - 360 * of_int k - m) + 15 * (m / 15 - q) + 15 * (q - of_int r)"
    by (simp add: t algebra_simps)
  have c: "(75 / 10 + 1 / 1000000000000 :: real) = 7.5 + 1 / 10 ^ 12" by simp
  have "\<bar>(az - 360 * of_int k - m) + 15 * (m / 15 - q) + 15 * (q - of_int r)\<bar>
        \<le> 75 / 10 + 1 / 1000000000000"
  proof (rule abs_sum3)
    show "\<bar>az - 360 * of_int k - m\<bar> \<le> 6 / 100000000000000"
      using k by (simp only: abs_minus_commute)
    show "\<bar>m / 15 - q\<bar> \<le> 4 / 1000000000000000"
      using qe by (simp only: abs_minus_commute)
    show "\<bar>q - of_int r\<bar> \<le> 1 / 2" by (rule rn)
    show "(6 / 100000000000000 + 15 * (4 / 1000000000000000) + 15 * (1 / 2) :: real)
          \<le> 75 / 10 + 1 / 1000000000000" by simp
  qed
  then have "\<bar>az - of_int ta - 360 * of_int (k + r div 24)\<bar> \<le> 7.5 + 1 / 10 ^ 12"
    by (simp only: eq c)
  then show ?thesis unfolding ta_def by blast
qed

text \<open>
  For a request in [-90, 90] the quotient that is rounded to the elevation index is
  \<open>(el + 90) / 15\<close> up to two roundings.
\<close>

lemma el_quotient_near:
  assumes "- 90 \<le> el" "el \<le> 90"
  shows "\<bar>15 * fl64 (fl64 (el + 90) / 15) - (el + 90)\<bar> \<le> 1 / 10000000000000"
proof -
  define s where "s = fl64 (el + 90)"
  define q where "q = fl64 (s / 15)"
  from assms have "\<bar>el + 90\<bar> \<le> 256" by linarith
  then have se: "\<bar>s - (el + 90)\<bar> \<le> 3 / 100000000000000"
    unfolding s_def by (rule fl64_near_dec)
  with assms have "\<bar>s\<bar> \<le> 240" by linarith
  then have "\<bar>s / 15\<bar> \<le> 16" by simp
  then have qe: "\<bar>q - s / 15\<bar> \<le> 2 / 1000000000000000"
    unfolding q_def by (rule fl64_near_dec)
  from se qe have "\<bar>15 * q - (el + 90)\<bar> \<le> 1 / 10000000000000" by linarith
  then show ?thesis by (simp only: q_def s_def)
qed

lemma target_el_near:
  assumes "- 90 \<le> el" "el \<le> 82.5"
  shows "\<bar>el - of_int (target_el_of el)\<bar> \<le> 7.5 + 1 / 10 ^ 12"
proof -
  define q where "q = fl64 (fl64 (el + 90) / 15)"
  define r where "r = py_round q"
  from assms have el: "el \<le> 90" "el \<le> 165 / 2" by simp_all
  from el_quotient_near [OF assms(1) el(1)]
  have qe: "\<bar>15 * q - (el + 90)\<bar> \<le> 1 / 10000000000000" by (simp only: q_def)
  have rn: "\<bar>q - of_int r\<bar> \<le> 1 / 2" unfolding r_def by (rule py_round_near)
  from qe rn assms(1) el(2) have "- 1 < (of_int r :: real)" "(of_int r :: real) < 13"
    by linarith+
  then have r: "0 \<le> r" "r \<le> 12" by linarith+
  have idx: "el_idx_of el = min 11 r"
    using r by (simp add: el_idx_of_def q_def [symmetric] r_def [symmetric])
  show ?thesis
  proof (cases "r \<le> 11")
    case True
    with idx have "target_el_of el = 15 * r - 90" by (simp add: target_el_of_def)
    then have eq: "el - of_int (target_el_of el) = (el + 90 - 15 * q) + 15 * (q - of_int r)"
      by simp
    have c: "(75 / 10 + 1 / 1000000000000 :: real) = 7.5 + 1 / 10 ^ 12" by simp
    have "\<bar>(el + 90 - 15 * q) + 15 * (q - of_int r)\<bar> \<le> 75 / 10 + 1 / 1000000000000"
    proof (rule abs_sum2)
      show "\<bar>el + 90 - 15 * q\<bar> \<le> 1 / 10000000000000"
        using qe by (simp only: abs_minus_commute)
      show "\<bar>q - of_int r\<bar> \<le> 1 / 2" by (rule rn)
      show "(1 / 10000000000000 + 15 * (1 / 2) :: real) \<le> 75 / 10 + 1 / 1000000000000" by simp
    qed
    then show ?thesis by (simp only: eq c)
  next
    case False
    with r have r12: "r = 12" by simp
    with idx have t: "target_el_of el = 75" by (simp add: target_el_of_def)
    from r12 have "(of_int r :: real) = 12" by simp
    with rn qe el(2) have "\<bar>el - 75\<bar> \<le> 75 / 10 + 1 / 1000000000000" by linarith
    then have "\<bar>el - 75\<bar> \<le> 7.5 + 1 / 10 ^ 12" by simp
    then show ?thesis by (simp only: t of_int_numeral)
  qed
qed

lemma target_el_top:
  assumes "82.5 < el" "el \<le> 90"
  shows "target_el_of el = 75"
proof -
  define q where "q = fl64 (fl64 (el + 90) / 15)"
  define r where "r = py_round q"
  from assms have el: "- 90 \<le> el" "165 / 2 < el" by simp_all
  from el_quotient_near [OF el(1) assms(2)]
  have qe: "\<bar>15 * q - (el + 90)\<bar> \<le> 1 / 10000000000000" by (simp only: q_def)
  have rn: "\<bar>q - of_int r\<bar> \<le> 1 / 2" unfolding r_def by (rule py_round_near)
  from qe rn el(2) have "(10::real) < of_int r" by linarith
  then have "10 < r" by linarith
  then have "el_idx_of el = 11"
    by (simp add: el_idx_of_def q_def [symmetric] r_def [symmetric])
  then show ?thesis by (simp add: target_el_of_def)
qed

subsection \<open>The rounding is felt at the edge of a grid cell\<close>

text \<open>
  A rounding that is exact on the grid of its binade: the value of \<open>fl64\<close> where the
  scaled argument is within one half of an integer.
\<close>

lemma fl64_on_grid:
  assumes "2 powr of_int l \<le> \<bar>x\<bar>" "\<bar>x\<bar> < 2 powr of_int (l + 1)" "- 1022 \<le> l"
    and "\<bar>x / 2 powr of_int (l - 52) - of_int n\<bar> < 1 / 2"
  shows "fl64 x = of_int n * 2 powr of_int (l - 52)"
proof -
  from assms(1) have x: "x \<noteq> 0" by (auto simp: not_le [symmetric])
  then have pos: "0 < \<bar>x\<bar>" by simp
  have "\<lfloor>log 2 \<bar>x\<bar>\<rfloor> = l"
    using assms(1,2) pos by (simp add: floor_log_eq_powr_iff)
  with assms(3) have e: "max (\<lfloor>log 2 \<bar>x\<bar>\<rfloor> - 52) (- 1074) = l - 52" by simp
  from assms(4) have "py_round (x / 2 powr of_int (l - 52)) = n" by (rule py_round_unique)
  with x e show ?thesis by (simp add: fl64_def Let_def)
qed

lemma fl64_sum_az: "fl64 (- (7.5 + 1 / 2 ^ 50) + 360) = 352.5"
proof -
  have "fl64 (- (7.5 + 1 / 2 ^ 50) + 360) = of_int 6201245580656640 * 2 powr of_int (8 - 52)"
    by (rule fl64_on_grid) (simp_all add: powr_minus powr_numeral abs_less_iff)
  then show ?thesis by (simp add: powr_minus powr_numeral)
qed

lemma fl64_quotient_az: "fl64 (352.5 / 15) = 23.5"
proof -
  have "fl64 (352.5 / 15) = of_int 6614661952700416 * 2 powr of_int (4 - 52)"
    by (rule fl64_on_grid) (simp_all add: powr_minus powr_numeral abs_less_iff)
  then show ?thesis by (simp add: powr_minus powr_numeral)
qed

lemma fl64_sum_el: "fl64 (7.5 + 1 / 2 ^ 50 + 90) = 97.5"
proof -
  have "fl64 (7.5 + 1 / 2 ^ 50 + 90) = of_int 6860952557322240 * 2 powr of_int (6 - 52)"
    by (rule fl64_on_grid) (simp_all add: powr_minus powr_numeral abs_less_iff)
  then show ?thesis by (simp add: powr_minus powr_numeral)
qed

lemma fl64_quotient_el: "fl64 (97.5 / 15) = 6.5"
proof -
  have "fl64 (97.5 / 15) = of_int 7318349394477056 * 2 powr of_int (2 - 52)"
    by (rule fl64_on_grid) (simp_all add: powr_minus powr_numeral abs_less_iff)
  then show ?thesis by (simp add: powr_minus powr_numeral)
qed

text \<open>
  The azimuth \<open>-(7.5 + 2 ^ -50)\<close>: the remainder \<open>360 - 7.5 - 2 ^ -50\<close> is rounded to
  352.5, the quotient 23.5 is a tie and goes to the even 24, and the lookup answers with
  the grid azimuth 0, which is more than 7.5 degrees from the request (by \<open>2 ^ -50\<close>).
\<close>

lemma target_az_at_cell_edge: "target_az_of (- (7.5 + 1 / 2 ^ 50)) = 0"
proof -
  have m: "py_fmod (- (7.5 + 1 / 2 ^ 50)) 360 = 352.5"
    using fl64_sum_az by (simp add: py_fmod_def py_int_def Let_def)
  have r: "py_round 23.5 = 24" by (simp add: py_round_def)
  show ?thesis by (simp only: target_az_of_def az_idx_of_def m fl64_quotient_az r) simp
qed

lemma azimuth_beyond_half_step:
  "\<not> \<bar>- (7.5 + 1 / 2 ^ 50) - real_of_int (target_az_of (- (7.5 + 1 / 2 ^ 50)))
        - 360 * of_int j\<bar> \<le> 7.5"
proof -
  have g: "\<not> \<bar>- (7.5 + 1 / 2 ^ 50) - real_of_int 0 - 360 * of_int j\<bar> \<le> 7.5"
  proof -
    have "j \<le> - 1 \<or> j = 0 \<or> 1 \<le> j" by linarith
    then show ?thesis
    proof (elim disjE)
      assume "j \<le> - 1"
      then have "real_of_int j \<le> - 1" by linarith
      then show ?thesis by (simp add: abs_le_iff)
    next
      assume "j = 0"
      then show ?thesis by simp
    next
      assume "1 \<le> j"
      then have "1 \<le> real_of_int j" by linarith
      then show ?thesis by (simp add: abs_le_iff)
    qed
  qed
  show ?thesis by (simp only: target_az_at_cell_edge g not_False_eq_True)
qed

text \<open>
  The elevation \<open>7.5 + 2 ^ -50\<close>: the sum with 90 is rounded to 97.5, the quotient 6.5
  is a tie and goes to the even 6, and the lookup answers with the grid elevation 0.
\<close>

lemma target_el_at_cell_edge: "target_el_of (7.5 + 1 / 2 ^ 50) = 0"
proof -
  have r: "py_round 6.5 = 6" by (simp add: py_round_def)
  show ?thesis
    by (simp only: target_el_of_def el_idx_of_def fl64_sum_el fl64_quotient_el r)
qed

lemma elevation_beyond_half_step:
  "\<not> \<bar>7.5 + 1 / 2 ^ 50 - real_of_int (target_el_of (7.5 + 1 / 2 ^ 50))\<bar> \<le> 7.5"
  by (simp only: target_el_at_cell_edge) simp

text \<open>
  C4, as the claim states it: for every elevation in [-90, 90] the returned grid
  elevation is within 7.5 degrees of the request. The grid has twelve elevations, from
  -90 to 75, and the index is clamped to 11: a request of 90 degrees is answered by the
  grid elevation 75, which is 15 degrees away.
\<close>

theorem nearest_elevation_at_zenith:
  "\<not> \<bar>90 - real_of_int (target_el_of 90)\<bar> \<le> 7.5"
proof -
  have "target_el_of 90 = 75" by (rule target_el_top) simp_all
  then show ?thesis by simp
qed

text \<open>
  C4, amended: for every requested azimuth the grid azimuth differs from it by at most
  7.5 degrees modulo 360, and for every requested elevation in [-90, 82.5] the grid
  elevation differs from it by at most 7.5 degrees, in both cases up to the rounding of
  the binary64 operations of the lookup, which adds less than \<open>10 ^ -12\<close> degrees (and
  does add to it, as at the two cell edges above); every requested elevation in
  (82.5, 90] is answered by the highest grid elevation, 75 degrees, at most 15 degrees
  away.
\<close>

theorem nearest_direction_within_grid:
  assumes "- 90 \<le> el" "el \<le> 90"
  shows "(\<exists>j::int. \<bar>az - of_int (target_az_of az) - 360 * of_int j\<bar> \<le> 7.5 + 1 / 10 ^ 12)
         \<and> (el \<le> 82.5 \<longrightarrow> \<bar>el - of_int (target_el_of el)\<bar> \<le> 7.5 + 1 / 10 ^ 12)
         \<and> (82.5 < el \<longrightarrow> target_el_of el = 75 \<and> \<bar>el - 75\<bar> \<le> 15)"
proof (intro conjI impI)
  show "\<exists>j::int. \<bar>az - of_int (target_az_of az) - 360 * of_int j\<bar> \<le> 7.5 + 1 / 10 ^ 12"
    by (rule target_az_near)
  show "\<bar>el - of_int (target_el_of el)\<bar> \<le> 7.5 + 1 / 10 ^ 12" if "el \<le> 82.5"
    using assms(1) that by (rule target_el_near)
  show "target_el_of el = 75" if "82.5 < el"
    using that assms(2) by (rule target_el_top)
  show "\<bar>el - 75\<bar> \<le> 15" if "82.5 < el"
    using that assms(2) by simp
qed

theorem nearest_direction_within_grid_witness:
  "(- 90 :: real) \<le> 40 \<and> (40 :: real) \<le> 90
   \<and> (\<exists>j::int. \<bar>370 - real_of_int (target_az_of 370) - 360 * real_of_int j\<bar> \<le> 7.5 + 1 / 10 ^ 12)
   \<and> \<bar>40 - real_of_int (target_el_of 40)\<bar> \<le> 7.5 + 1 / 10 ^ 12"
  using nearest_direction_within_grid [of 40 370] by simp

section \<open>Properties of the HRTF database\<close>

lemma generate_row_dom:
  "generate_row sr fftn flen azs row = Inr row' \<Longrightarrow>
   dom row' = dom row \<union> (\<lambda>az. int az * 15) ` set azs"
proof (induction azs arbitrary: row)
  case Nil
  then show ?case by simp
next
  case (Cons az azs)
  then show ?case by (auto split: sum.splits)
qed

lemma generate_rows_dom:
  "generate_rows sr fftn flen naz els db = Inr db' \<Longrightarrow> full_rows naz db \<Longrightarrow>
   full_rows naz db' \<and> dom db' = dom db \<union> (\<lambda>el. int el * 15 - 90) ` set els"
proof (induction els arbitrary: db)
  case Nil
  then show ?case by simp
next
  case (Cons el els)
  from Cons.prems(1) obtain row where
    row: "generate_row sr fftn flen [0..<naz] Map.empty = Inr row" and
    rest: "generate_rows sr fftn flen naz els (db(int el * 15 - 90 \<mapsto> row)) = Inr db'"
    by (auto split: sum.splits)
  from generate_row_dom [OF row] have "dom row = (\<lambda>az. int az * 15) ` {0..<naz}" by simp
  with Cons.prems(2) have "full_rows naz (db(int el * 15 - 90 \<mapsto> row))"
    by (simp add: full_rows_def)
  from Cons.IH [OF rest this] show ?case by auto
qed

lemma hrtf_db_keys:
  assumes "HRTF_Engine_init sr fftn = Inr e" "0 \<le> i" "i \<le> 11" "0 \<le> j" "j < 24"
  shows "\<exists>row v. hrtf_db e (i * 15 - 90) = Some row \<and> row (j * 15) = Some v"
proof -
  from assms(1) obtain db where
    db: "generate_rows sr fftn 1024 24 [0..<12] Map.empty = Inr db" and e: "hrtf_db e = db"
    by (auto simp: HRTF_Engine_init_def generate_synthetic_hrtf_def split: sum.splits)
  have "full_rows 24 Map.empty" by (simp add: full_rows_def)
  from generate_rows_dom [OF db this]
  have full: "full_rows 24 db" and d: "dom db = (\<lambda>el. int el * 15 - 90) ` {0..<12}" by simp_all
  from assms(2,3) have "i * 15 - 90 = int (nat i) * 15 - 90" "nat i \<in> {0..<12}" by auto
  then have "i * 15 - 90 \<in> dom db" unfolding d by (rule image_eqI)
  then obtain row where row: "db (i * 15 - 90) = Some row" by auto
  with full have dr: "dom row = (\<lambda>az. int az * 15) ` {0..<24}" by (simp add: full_rows_def)
  from assms(4,5) have "j * 15 = int (nat j) * 15" "nat j \<in> {0..<24}" by auto
  then have "j * 15 \<in> dom row" unfolding dr by (rule image_eqI)
  then obtain v where "row (j * 15) = Some v" by auto
  with row e show ?thesis by simp
qed

subsection \<open>The constructors succeed\<close>

lemma itd_samples_bound:
  assumes "sr \<le> 1000000"
  shows "\<bar>itd_samples_of sr az\<bar> \<le> 1276"
proof -
  define m where "m = (az * 15) mod 180"
  define th where "th = np_radians (real m)"
  define s where "s = (0.0875 / 343) * (th + sin th)"
  define s' where "s' = (if az * 15 > 180 then - s else s)"
  have its: "itd_samples_of sr az = py_round (s' * real sr)"
    by (simp add: itd_samples_of_def Let_def m_def th_def s_def s'_def)
  have "m < 180" by (simp add: m_def)
  then have "real m < 180" by simp
  then have "th < pi" "0 \<le> th" by (simp_all add: th_def np_radians_def)
  with pi_less_4 have th: "0 \<le> th" "th < 4" by simp_all
  have "\<bar>sin th\<bar> \<le> 1" by (rule abs_sin_le_one)
  with th have "\<bar>th + sin th\<bar> \<le> 5" by linarith
  then have "\<bar>s\<bar> \<le> (0.0875 / 343) * 5" by (simp add: s_def abs_mult)
  then have s'_le: "\<bar>s'\<bar> \<le> (0.0875 / 343) * 5" by (simp add: s'_def)
  from assms have "real sr \<le> 1000000" by simp
  with s'_le have "\<bar>s'\<bar> * real sr \<le> ((0.0875 / 343) * 5) * 1000000"
    by (intro mult_mono) simp_all
  then have "\<bar>s' * real sr\<bar> \<le> 1276" by (simp add: abs_mult)
  with py_round_near [of "s' * real sr"]
  have "\<bar>real_of_int (py_round (s' * real sr))\<bar> \<le> 1276 + 1 / 2" by linarith
  then have "\<bar>py_round (s' * real sr)\<bar> \<le> 1276" by linarith
  then show ?thesis by (simp add: its)
qed

lemma np_setitem_ok:
  "0 \<le> i \<Longrightarrow> i < int (length a) \<Longrightarrow> np_setitem a i v = Inr (a[nat i := v])"
  by (simp add: np_setitem_def)

lemma hrtf_pair_ok:
  assumes "sr \<le> 1000000" "1 \<le> fftn"
  shows "\<exists>v. hrtf_pair sr fftn 1024 az = Inr v"
proof -
  define its where "its = itd_samples_of sr az"
  define idx_l where "idx_l = 100 + (if its > 0 then its div 2 else 0)"
  define idx_r where "idx_r = 100 + (if its < 0 then (- its) div 2 else 0)"
  have b: "\<bar>its\<bar> \<le> 1276" unfolding its_def using assms(1) by (rule itd_samples_bound)
  then have l: "0 \<le> idx_l" "idx_l < 1024" and r: "0 \<le> idx_r" "idx_r < 1024"
    by (auto simp: idx_l_def idx_r_def)
  have sl: "\<And>v. np_setitem (np_zeros 1024) idx_l v = Inr ((np_zeros 1024)[nat idx_l := v])"
    using l by (intro np_setitem_ok) (simp_all add: np_zeros_def)
  have sr: "\<And>v. np_setitem (np_zeros 1024) idx_r v = Inr ((np_zeros 1024)[nat idx_r := v])"
    using r by (intro np_setitem_ok) (simp_all add: np_zeros_def)
  show ?thesis
    unfolding hrtf_pair_def its_def [symmetric] Let_def idx_l_def [symmetric] idx_r_def [symmetric]
    using assms(2) by (simp add: sl sr scipy_fft_def)
qed

lemma generate_row_ok:
  assumes "sr \<le> 1000000" "1 \<le> fftn"
  shows "\<exists>row'. generate_row sr fftn 1024 azs row = Inr row'"
proof (induction azs arbitrary: row)
  case Nil
  then show ?case by simp
next
  case (Cons az azs)
  from hrtf_pair_ok [OF assms, of az] obtain v where "hrtf_pair sr fftn 1024 az = Inr v" ..
  with Cons.IH show ?case by simp
qed

lemma generate_rows_ok:
  assumes "sr \<le> 1000000" "1 \<le> fftn"
  shows "\<exists>db'. generate_rows sr fftn 1024 naz els db = Inr db'"
proof (induction els arbitrary: db)
  case Nil
  then show ?case by simp
next
  case (Cons el els)
  from generate_row_ok [OF assms, of "[0..<naz]" Map.empty]
  obtain row where "generate_row sr fftn 1024 [0..<naz] Map.empty = Inr row" ..
  with Cons.IH show ?case by simp
qed

lemma HRTF_Engine_init_ok:
  assumes "sr \<le> 1000000" "1 \<le> fftn"
  shows "\<exists>e. HRTF_Engine_init sr fftn = Inr e \<and> fft_size e = fftn"
proof -
  from generate_rows_ok [OF assms, of 24 "[0..<12]" Map.empty]
  obtain db where "generate_rows sr fftn 1024 24 [0..<12] Map.empty = Inr db" ..
  then show ?thesis by (simp add: HRTF_Engine_init_def generate_synthetic_hrtf_def)
qed

lemma DSPPipeline_init_ok:
  assumes "sr \<le> 1000000" "1 \<le> cs"
  shows "\<exists>p. DSPPipeline_init sr cs = Inr p \<and> chunk_size p = cs
             \<and> env p = EnvironmentDSP_init sr \<and> fft_size (hrtf p) = cs * 2
             \<and> ctc p = CrosstalkCanceller_init 1.5 1.5"
proof -
  from assms(2) have "1 \<le> cs * 2" by simp
  from HRTF_Engine_init_ok [OF assms(1) this]
  obtain e where "HRTF_Engine_init sr (cs * 2) = Inr e" "fft_size e = cs * 2" by blast
  then show ?thesis by (simp add: DSPPipeline_init_def)
qed

text \<open>
  C10. For every real azimuth and elevation the lookup is total: the azimuth index lies
  in [0, 24), the elevation index in [0, 11], the key \<open>el_idx * 15 - 90\<close> is in the
  database that \<open>_generate_synthetic_hrtf\<close> built and the key \<open>az_idx * 15\<close> in its
  row, and \<open>get_nearest_hrtf\<close> returns the pair of spectra stored there, with no
  KeyError. The engine is any engine that its constructor returned.
\<close>

lemma get_nearest_hrtf_ok:
  assumes "HRTF_Engine_init sr fftn = Inr e"
  shows "\<exists>row v. hrtf_db e (el_idx_of el * 15 - 90) = Some row
                \<and> row (az_idx_of az * 15) = Some v
                \<and> get_nearest_hrtf e az el = Inr v"
proof -
  have a: "0 \<le> az_idx_of az \<and> az_idx_of az < 24" by (simp add: az_idx_of_def)
  have b: "0 \<le> el_idx_of el \<and> el_idx_of el \<le> 11" by (simp add: el_idx_of_def)
  from hrtf_db_keys [OF assms, of "el_idx_of el" "az_idx_of az"] a b
  obtain row v where "hrtf_db e (el_idx_of el * 15 - 90) = Some row" "row (az_idx_of az * 15) = Some v"
    by blast
  then show ?thesis
    by (simp add: get_nearest_hrtf_def target_el_of_def target_az_of_def)
qed

theorem get_nearest_hrtf_total:
  assumes "HRTF_Engine_init sr fftn = Inr e"
  shows "0 \<le> az_idx_of az \<and> az_idx_of az < 24 \<and> 0 \<le> el_idx_of el \<and> el_idx_of el \<le> 11
         \<and> (\<exists>row v. hrtf_db e (el_idx_of el * 15 - 90) = Some row
                    \<and> row (az_idx_of az * 15) = Some v
                    \<and> get_nearest_hrtf e az el = Inr v)"
proof -
  have "0 \<le> az_idx_of az \<and> az_idx_of az < 24" by (simp add: az_idx_of_def)
  moreover have "0 \<le> el_idx_of el \<and> el_idx_of el \<le> 11" by (simp add: el_idx_of_def)
  ultimately show ?thesis using get_nearest_hrtf_ok [OF assms, of el az] by simp
qed

theorem get_nearest_hrtf_total_witness:
  "\<exists>e. HRTF_Engine_init 96000 2048 = Inr e
       \<and> (\<exists>v. get_nearest_hrtf e (- 100) 1000 = Inr v)
       \<and> az_idx_of (- 100) = 17 \<and> el_idx_of 1000 = 11"
proof -
  from HRTF_Engine_init_ok [of 96000 2048]
  obtain e where e: "HRTF_Engine_init 96000 2048 = Inr e" by auto
  from get_nearest_hrtf_total [OF e, of "- 100" 1000]
  have "\<exists>v. get_nearest_hrtf e (- 100) 1000 = Inr v" by blast
  moreover have "az_idx_of (- 100) = 17"
  proof -
    have m: "py_fmod (- 100) 360 = fl64 260" by (simp add: py_fmod_def py_int_def)
    have "\<bar>(260::real)\<bar> \<le> 512" by simp
    then have a: "\<bar>fl64 260 - 260\<bar> \<le> 6 / 100000000000000" by (rule fl64_near_dec)
    then have "\<bar>fl64 260\<bar> \<le> 480" by linarith
    then have "\<bar>fl64 260 / 15\<bar> \<le> 32" by simp
    then have b: "\<bar>fl64 (fl64 260 / 15) - fl64 260 / 15\<bar> \<le> 4 / 1000000000000000"
      by (rule fl64_near_dec)
    from a b have "\<bar>fl64 (fl64 260 / 15) - 17\<bar> < 1 / 2" by linarith
    then have "\<bar>fl64 (fl64 260 / 15) - of_int 17\<bar> < 1 / 2" by simp
    then have "py_round (fl64 (fl64 260 / 15)) = 17" by (rule py_round_unique)
    then show ?thesis by (simp add: az_idx_of_def m)
  qed
  moreover have "el_idx_of 1000 = 11"
  proof -
    have "\<bar>(1090::real)\<bar> \<le> 2048" by simp
    then have a: "\<bar>fl64 1090 - 1090\<bar> \<le> 3 / 10000000000000" by (rule fl64_near_dec)
    then have "\<bar>fl64 1090\<bar> \<le> 1920" by linarith
    then have "\<bar>fl64 1090 / 15\<bar> \<le> 128" by simp
    then have b: "\<bar>fl64 (fl64 1090 / 15) - fl64 1090 / 15\<bar> \<le> 2 / 100000000000000"
      by (rule fl64_near_dec)
    have "\<bar>fl64 (fl64 1090 / 15) - of_int (py_round (fl64 (fl64 1090 / 15)))\<bar> \<le> 1 / 2"
      by (rule py_round_near)
    with a b have "(11::real) < of_int (py_round (fl64 (fl64 1090 / 15)))" by linarith
    then have "11 < py_round (fl64 (fl64 1090 / 15))" by linarith
    then show ?thesis by (simp add: el_idx_of_def)
  qed
  ultimately show ?thesis using e by blast
qed

section \<open>Properties of the constructors\<close>

text \<open>
  C9, as the claim states it: a configuration with 2 * block\_size > reverb\_buffer\_len
  is rejected at startup. The sample rate 96000 with the block size 30000 is such a
  configuration (the buffer has 48000 samples), and the constructor of the pipeline
  returns a pipeline for it: nothing is raised.
\<close>

theorem oversized_block_accepted:
  "\<not> isl (DSPPipeline_init 96000 30000)
   \<and> chunk_size (projr (DSPPipeline_init 96000 30000)) = 30000
   \<and> length (reverb_buffer (env (projr (DSPPipeline_init 96000 30000)))) = 48000
   \<and> \<not> 2 * chunk_size (projr (DSPPipeline_init 96000 30000))
         \<le> length (reverb_buffer (env (projr (DSPPipeline_init 96000 30000))))"
proof -
  from DSPPipeline_init_ok [of 96000 30000]
  obtain p where p: "DSPPipeline_init 96000 30000 = Inr p" "chunk_size p = 30000"
    "env p = EnvironmentDSP_init 96000" by auto
  have "length (reverb_buffer (EnvironmentDSP_init 96000)) = 48000"
    by (simp add: EnvironmentDSP_init_def np_zeros_def py_int_def)
  with p show ?thesis by simp
qed

text \<open>
  C9, amended: the constructors check no relation between the block size and the length
  of the reverb buffer, and there is no ConfigError. For every sample rate from 1 to
  1000000 and every block size of at least 1, also one with
  2 * block\_size > reverb\_buffer\_len, the constructor of the pipeline returns a
  pipeline with that block size, a reverb buffer of \<open>sample_rate div 2\<close> zeros and the
  cursor at 0.
\<close>

theorem DSPPipeline_init_accepts:
  assumes "0 < sr" "sr \<le> 1000000" "1 \<le> cs"
  shows "\<exists>p. DSPPipeline_init sr cs = Inr p \<and> chunk_size p = cs
             \<and> reverb_buffer (env p) = np_zeros (sr div 2) \<and> ptr_env (env p) = 0"
proof -
  from DSPPipeline_init_ok [OF assms(2,3)]
  obtain p where p: "DSPPipeline_init sr cs = Inr p" "chunk_size p = cs"
    "env p = EnvironmentDSP_init sr" by auto
  have "\<lfloor>real sr / real 2\<rfloor> = int (sr div 2)" by (rule floor_divide_of_nat_eq)
  then have "nat (py_int (real sr * 0.5)) = sr div 2" by (simp add: py_int_def)
  with p show ?thesis by (simp add: EnvironmentDSP_init_def)
qed

theorem DSPPipeline_init_accepts_witness:
  "(0::nat) < 96000 \<and> (96000::nat) \<le> 1000000 \<and> (1::nat) \<le> 30000
   \<and> (\<exists>p. DSPPipeline_init 96000 30000 = Inr p \<and> chunk_size p = 30000
            \<and> reverb_buffer (env p) = np_zeros 48000 \<and> ptr_env (env p) = 0)"
  using DSPPipeline_init_accepts [of 96000 30000] by simp

section \<open>Properties of EnvironmentDSP.apply\_reverb\<close>

lemma replicate_4: "replicate 4 x = [x, x, x, x]"
  by (simp add: numeral_eq_Suc)

lemma replicate_5: "replicate 5 x = [x, x, x, x, x]"
  by (simp add: numeral_eq_Suc)

lemma slice_bound_nat: "0 \<le> i \<Longrightarrow> i \<le> int n \<Longrightarrow> slice_bound n i = nat i"
  by (simp add: slice_bound_def)

lemma apply_reverb_ok:
  assumes "0 \<le> ptr_env e"
    and "ptr_env e + int (length data) \<le> int (length (reverb_buffer e))"
    and "length data < length (reverb_buffer e)"
  shows "apply_reverb e data =
     Inr (map2 (+) data (map (\<lambda>b. b * reverb_decay e)
                           (take (length data) (drop (nat (ptr_env e)) (reverb_buffer e)))),
          e\<lparr>reverb_buffer := take (nat (ptr_env e)) (reverb_buffer e) @ data
                               @ drop (nat (ptr_env e) + length data) (reverb_buffer e),
            ptr_env := (ptr_env e + int (length data))
                         mod (int (length (reverb_buffer e)) - int (length data))\<rparr>)"
proof -
  define p where "p = ptr_env e"
  define n where "n = length data"
  define buf where "buf = reverb_buffer e"
  have lo: "slice_bound (length buf) p = nat p"
    using assms by (intro slice_bound_nat) (simp_all add: p_def buf_def)
  have hi: "slice_bound (length buf) (p + int n) = nat p + n"
    using assms by (simp add: slice_bound_nat p_def buf_def n_def nat_add_distrib)
  have sl: "py_slice buf p (p + int n) = take n (drop (nat p) buf)"
    by (simp add: py_slice_def lo hi)
  have len: "length (take n (drop (nat p) buf)) = n"
    using assms by (simp add: p_def buf_def n_def)
  have add: "np_elementwise (+) data (map (\<lambda>b. b * reverb_decay e) (take n (drop (nat p) buf)))
             = Inr (map2 (+) data (map (\<lambda>b. b * reverb_decay e) (take n (drop (nat p) buf))))"
    using len by (simp add: np_elementwise_def n_def)
  have asg: "np_slice_assign buf p (p + int n) data = Inr (take (nat p) buf @ data @ drop (nat p + n) buf)"
    unfolding np_slice_assign_def Let_def lo hi by (simp add: n_def)
  have nz: "int (length buf) - int n \<noteq> 0" using assms(3) by (simp add: buf_def n_def)
  show ?thesis
    unfolding apply_reverb_def p_def [symmetric] n_def [symmetric] buf_def [symmetric] Let_def
    using nz by (simp add: sl add asg)
qed


lemma apply_eq_length: "length (apply_eq e x) = length x"
  by (simp add: apply_eq_def)

lemma apply_reverb_in_window:
  assumes "0 \<le> ptr_env e"
    and "ptr_env e < int (length (reverb_buffer e)) - int (length data)"
  shows "apply_reverb e data =
     Inr (map2 (+) data (map (\<lambda>b. b * reverb_decay e)
                           (take (length data) (drop (nat (ptr_env e)) (reverb_buffer e)))),
          e\<lparr>reverb_buffer := take (nat (ptr_env e)) (reverb_buffer e) @ data
                               @ drop (nat (ptr_env e) + length data) (reverb_buffer e),
            ptr_env := (ptr_env e + int (length data))
                         mod (int (length (reverb_buffer e)) - int (length data))\<rparr>)"
proof -
  from assms have "ptr_env e + int (length data) \<le> int (length (reverb_buffer e))"
    and "length data < length (reverb_buffer e)" by linarith+
  with assms(1) show ?thesis by (rule apply_reverb_ok)
qed

lemma env_init_8: "EnvironmentDSP_init 8 =
    \<lparr>sample_rate_env = 8, low_gain = 1, mid_gain = 1, high_gain = 1,
     reverb_decay = 0.4, reverb_buffer = [0, 0, 0, 0], ptr_env = 0\<rparr>"
  by (simp add: EnvironmentDSP_init_def np_zeros_def py_int_def replicate_4)

lemma env_init_10: "EnvironmentDSP_init 10 =
    \<lparr>sample_rate_env = 10, low_gain = 1, mid_gain = 1, high_gain = 1,
     reverb_decay = 0.4, reverb_buffer = [0, 0, 0, 0, 0], ptr_env = 0\<rparr>"
  by (simp add: EnvironmentDSP_init_def np_zeros_def py_int_def replicate_5)

lemma apply_eq_unit_gains:
  "apply_eq \<lparr>sample_rate_env = sr, low_gain = 1, mid_gain = 1, high_gain = 1,
     reverb_decay = d, reverb_buffer = b, ptr_env = p\<rparr> x = x"
  by (simp add: apply_eq_def)

lemma second_block_after_left_burst:
  "eq_reverb_stage ((EnvironmentDSP_init 10)\<lparr>reverb_buffer := [1, 1, 0, 0, 0], ptr_env := 1\<rparr>)
     [0, 0] [0, 0]
   = Inr ([2 / 5, 0], [2 / 5, 0],
          (EnvironmentDSP_init 10)\<lparr>reverb_buffer := [0, 0, 0, 0, 0], ptr_env := 2\<rparr>)"
  by (simp add: env_init_10 eq_reverb_stage_def apply_eq_unit_gains apply_reverb_in_window)

text \<open>
  C2, as the claim states it: there are two buffers, one per channel, and the left
  channel's reverb leaves the buffer and cursor of the right channel unchanged, so that a
  channel's reverb output depends on that channel's past input only. The pipeline has
  one EnvironmentDSP object with one buffer and one cursor, and calls its
  \<open>apply_reverb\<close> for the left and then for the right channel. With a buffer of five
  samples (sample rate 10) and blocks of two: in the first block the left input [1, 1]
  is stored in the buffer and the cursor moves, and the right input is silent; in the
  second block both inputs are silent, and the right output is not: it carries the left
  input of the first block, although the right channel never had a non-zero input. The
  samples of the first block (sums and products with a zero operand, and copies) are the
  same in binary64 arithmetic; the second conjunct only says that the output is not
  silent.
\<close>

theorem right_reverb_hears_left:
  "eq_reverb_stage (EnvironmentDSP_init 10) [1, 1] [0, 0]
     = Inr ([1, 1], [0, 0],
            (EnvironmentDSP_init 10)\<lparr>reverb_buffer := [1, 1, 0, 0, 0], ptr_env := 1\<rparr>)
   \<and> \<not> isl (eq_reverb_stage
               ((EnvironmentDSP_init 10)\<lparr>reverb_buffer := [1, 1, 0, 0, 0], ptr_env := 1\<rparr>)
               [0, 0] [0, 0])
   \<and> fst (snd (projr (eq_reverb_stage
               ((EnvironmentDSP_init 10)\<lparr>reverb_buffer := [1, 1, 0, 0, 0], ptr_env := 1\<rparr>)
               [0, 0] [0, 0]))) \<noteq> [0, 0]"
proof -
  have "eq_reverb_stage (EnvironmentDSP_init 10) [1, 1] [0, 0]
     = Inr ([1, 1], [0, 0],
            (EnvironmentDSP_init 10)\<lparr>reverb_buffer := [1, 1, 0, 0, 0], ptr_env := 1\<rparr>)"
    by (simp add: env_init_10 eq_reverb_stage_def apply_eq_unit_gains apply_reverb_in_window)
  then show ?thesis by (simp add: second_block_after_left_burst)
qed

text \<open>
  C2, amended: the reverb stage keeps one circular buffer with one write cursor, used
  for both channels in turn. In every rendered block, with the cursor \<open>p\<close>, a buffer of
  \<open>B\<close> samples and blocks of \<open>N\<close> samples (\<open>0 \<le> p < B - N\<close>), the left channel's
  call stores the left block at \<open>[p, p + N)\<close> of the buffer and moves the cursor to
  \<open>(p + N) mod (B - N)\<close>; the right channel's call runs on that buffer and that cursor,
  stores the right block at the new cursor and moves it again. Neither call raises.
\<close>

theorem reverb_buffer_shared:
  assumes "0 \<le> ptr_env e"
    and "ptr_env e < int (length (reverb_buffer e)) - int N"
    and "length mixed_l = N" and "length mixed_r = N"
  shows "\<exists>out_l out_r e1 e2.
      apply_reverb e (apply_eq e mixed_l) = Inr (out_l, e1)
    \<and> reverb_buffer e1 = take (nat (ptr_env e)) (reverb_buffer e) @ apply_eq e mixed_l
                           @ drop (nat (ptr_env e) + N) (reverb_buffer e)
    \<and> ptr_env e1 = (ptr_env e + int N) mod (int (length (reverb_buffer e)) - int N)
    \<and> apply_reverb e1 (apply_eq e1 mixed_r) = Inr (out_r, e2)
    \<and> reverb_buffer e2 = take (nat (ptr_env e1)) (reverb_buffer e1) @ apply_eq e1 mixed_r
                           @ drop (nat (ptr_env e1) + N) (reverb_buffer e1)
    \<and> ptr_env e2 = (ptr_env e1 + int N) mod (int (length (reverb_buffer e)) - int N)
    \<and> eq_reverb_stage e mixed_l mixed_r = Inr (out_l, out_r, e2)"
proof -
  define x where "x = apply_eq e mixed_l"
  have lx: "length x = N" by (simp add: x_def apply_eq_length assms(3))
  obtain out_l e1 where 1: "apply_reverb e x = Inr (out_l, e1)"
    and b1: "reverb_buffer e1 = take (nat (ptr_env e)) (reverb_buffer e) @ x
                                 @ drop (nat (ptr_env e) + N) (reverb_buffer e)"
    and p1: "ptr_env e1 = (ptr_env e + int N) mod (int (length (reverb_buffer e)) - int N)"
    using apply_reverb_in_window [of e x] assms(1,2) by (simp add: lx)
  have pos: "0 < int (length (reverb_buffer e)) - int N" using assms(1,2) by linarith
  have B1: "length (reverb_buffer e1) = length (reverb_buffer e)"
    using assms(1,2) by (simp add: b1 lx)
  have w1: "0 \<le> ptr_env e1" "ptr_env e1 < int (length (reverb_buffer e1)) - int N"
    using pos by (simp_all add: p1 B1)
  define y where "y = apply_eq e1 mixed_r"
  have ly: "length y = N" by (simp add: y_def apply_eq_length assms(4))
  obtain out_r e2 where 2: "apply_reverb e1 y = Inr (out_r, e2)"
    and b2: "reverb_buffer e2 = take (nat (ptr_env e1)) (reverb_buffer e1) @ y
                                 @ drop (nat (ptr_env e1) + N) (reverb_buffer e1)"
    and p2: "ptr_env e2 = (ptr_env e1 + int N) mod (int (length (reverb_buffer e)) - int N)"
    using apply_reverb_in_window [of e1 y] w1 by (simp add: ly B1)
  have a: "apply_reverb e (apply_eq e mixed_l) = Inr (out_l, e1)"
    using 1 by (simp only: x_def)
  have b: "reverb_buffer e1 = take (nat (ptr_env e)) (reverb_buffer e) @ apply_eq e mixed_l
                           @ drop (nat (ptr_env e) + N) (reverb_buffer e)"
    using b1 by (simp only: x_def)
  have d: "apply_reverb e1 (apply_eq e1 mixed_r) = Inr (out_r, e2)"
    using 2 by (simp only: y_def)
  have f: "reverb_buffer e2 = take (nat (ptr_env e1)) (reverb_buffer e1) @ apply_eq e1 mixed_r
                           @ drop (nat (ptr_env e1) + N) (reverb_buffer e1)"
    using b2 by (simp only: y_def)
  have g: "eq_reverb_stage e mixed_l mixed_r = Inr (out_l, out_r, e2)"
    by (simp add: eq_reverb_stage_def a d)
  from a b p1 d f p2 g show ?thesis by blast
qed

theorem reverb_buffer_shared_witness:
  "0 \<le> ptr_env (EnvironmentDSP_init 8)
   \<and> ptr_env (EnvironmentDSP_init 8) < int (length (reverb_buffer (EnvironmentDSP_init 8))) - int 2
   \<and> length [1, 1 :: real] = 2 \<and> length [0, 0 :: real] = 2
   \<and> (\<exists>out_l out_r e1 e2.
         apply_reverb (EnvironmentDSP_init 8) [1, 1] = Inr (out_l, e1)
       \<and> reverb_buffer e1 = [1, 1, 0, 0] \<and> ptr_env e1 = 0
       \<and> reverb_buffer e2 = [0, 0, 0, 0] \<and> ptr_env e2 = 0
       \<and> eq_reverb_stage (EnvironmentDSP_init 8) [1, 1] [0, 0] = Inr (out_l, out_r, e2))"
proof -
  have h: "0 \<le> ptr_env (EnvironmentDSP_init 8)"
    "ptr_env (EnvironmentDSP_init 8) < int (length (reverb_buffer (EnvironmentDSP_init 8))) - int 2"
    "length [1, 1 :: real] = 2" "length [0, 0 :: real] = 2"
    by (simp_all add: env_init_8)
  from reverb_buffer_shared [OF h] obtain out_l out_r e1 e2 where
    r: "apply_reverb (EnvironmentDSP_init 8) (apply_eq (EnvironmentDSP_init 8) [1, 1]) = Inr (out_l, e1)"
      "reverb_buffer e1 = take (nat (ptr_env (EnvironmentDSP_init 8))) (reverb_buffer (EnvironmentDSP_init 8))
         @ apply_eq (EnvironmentDSP_init 8) [1, 1]
         @ drop (nat (ptr_env (EnvironmentDSP_init 8)) + 2) (reverb_buffer (EnvironmentDSP_init 8))"
      "ptr_env e1 = (ptr_env (EnvironmentDSP_init 8) + int 2)
         mod (int (length (reverb_buffer (EnvironmentDSP_init 8))) - int 2)"
      "reverb_buffer e2 = take (nat (ptr_env e1)) (reverb_buffer e1) @ apply_eq e1 [0, 0]
         @ drop (nat (ptr_env e1) + 2) (reverb_buffer e1)"
      "ptr_env e2 = (ptr_env e1 + int 2)
         mod (int (length (reverb_buffer (EnvironmentDSP_init 8))) - int 2)"
      "eq_reverb_stage (EnvironmentDSP_init 8) [1, 1] [0, 0] = Inr (out_l, out_r, e2)"
    by blast
  have z: "apply_eq e1 [0, 0] = [0, 0]" by (simp add: apply_eq_def)
  from r(2,3) have e1: "reverb_buffer e1 = [1, 1, 0, 0]" "ptr_env e1 = 0"
    by (simp_all add: env_init_8 apply_eq_unit_gains)
  from r(4,5) have e2: "reverb_buffer e2 = [0, 0, 0, 0]" "ptr_env e2 = 0"
    by (simp_all add: e1 z env_init_8)
  from r(1) have "apply_reverb (EnvironmentDSP_init 8) [1, 1] = Inr (out_l, e1)"
    by (simp add: env_init_8 apply_eq_unit_gains)
  with e1 e2 r(6) h show ?thesis by blast
qed

section \<open>Properties of DSPPipeline.process on silence\<close>

lemma sum_list_zero_upt:
  fixes f :: "nat \<Rightarrow> complex"
  assumes "\<And>j. j < n \<Longrightarrow> f j = 0"
  shows "(\<Sum>j\<leftarrow>[0..<n]. f j) = 0"
proof -
  have "map f [0..<n] = map (\<lambda>j. 0) [0..<n]" using assms by (intro map_cong) simp_all
  then show ?thesis by (simp add: map_replicate_const sum_list_replicate)
qed

lemma dft_zeros: "dft (replicate n 0) = replicate n 0"
proof -
  have "(\<Sum>j\<leftarrow>[0..<n]. replicate n (0::complex) ! j * cis (- (2 * pi * real k * real j / real n))) = 0"
    for k by (rule sum_list_zero_upt) simp
  then show ?thesis by (simp add: dft_def map_replicate_const)
qed

lemma idft_zeros: "idft (replicate n 0) = replicate n 0"
proof -
  have "(\<Sum>k\<leftarrow>[0..<n]. replicate n (0::complex) ! k * cis (2 * pi * real k * real j / real n)) = 0"
    for j by (rule sum_list_zero_upt) simp
  then show ?thesis by (simp add: idft_def map_replicate_const)
qed

lemma scipy_fft_length: "scipy_fft x n = Inr X \<Longrightarrow> length X = n"
  by (auto simp: scipy_fft_def dft_def Let_def split: if_splits)

lemma scipy_fft_zeros: "1 \<le> n \<Longrightarrow> scipy_fft (np_zeros N) n = Inr (replicate n 0)"
proof -
  assume n: "1 \<le> n"
  have "take n (replicate N (0::real) @ replicate (n - N) 0) = replicate n 0"
    by (simp add: replicate_add [symmetric] min_def)
  then have "map complex_of_real (take n (np_zeros N @ replicate (n - length (np_zeros N)) 0))
             = replicate n 0" by (simp add: np_zeros_def)
  with n show ?thesis by (simp add: scipy_fft_def dft_zeros)
qed

lemma hrtf_pair_length:
  "hrtf_pair sr fftn flen az = Inr (a, b) \<Longrightarrow> length a = fftn \<and> length b = fftn"
  unfolding hrtf_pair_def Let_def
  by (auto split: sum.splits dest: scipy_fft_length)

lemma generate_row_length:
  "generate_row sr fftn flen azs row = Inr row' \<Longrightarrow> spectra_of_length fftn row \<Longrightarrow>
   spectra_of_length fftn row'"
proof (induction azs arbitrary: row)
  case Nil
  then show ?case by simp
next
  case (Cons az azs)
  from Cons.prems(1) obtain v where
    v: "hrtf_pair sr fftn flen az = Inr v" and
    rest: "generate_row sr fftn flen azs (row(int az * 15 \<mapsto> v)) = Inr row'"
    by (auto split: sum.splits)
  obtain a b where ab: "v = (a, b)" by (cases v)
  from v ab hrtf_pair_length have "length a = fftn \<and> length b = fftn" by blast
  with Cons.prems(2) ab have "spectra_of_length fftn (row(int az * 15 \<mapsto> v))"
    by (simp add: spectra_of_length_def)
  with rest show ?case by (rule Cons.IH)
qed

lemma generate_rows_length:
  "generate_rows sr fftn flen naz els db = Inr db' \<Longrightarrow>
   (\<forall>k row. db k = Some row \<longrightarrow> spectra_of_length fftn row) \<Longrightarrow>
   (\<forall>k row. db' k = Some row \<longrightarrow> spectra_of_length fftn row)"
proof (induction els arbitrary: db)
  case Nil
  then show ?case by simp
next
  case (Cons el els)
  from Cons.prems(1) obtain row where
    row: "generate_row sr fftn flen [0..<naz] Map.empty = Inr row" and
    rest: "generate_rows sr fftn flen naz els (db(int el * 15 - 90 \<mapsto> row)) = Inr db'"
    by (auto split: sum.splits)
  have "spectra_of_length fftn Map.empty" by (simp add: spectra_of_length_def)
  with row have "spectra_of_length fftn row" by (rule generate_row_length)
  with Cons.prems(2)
  have "\<forall>k r. (db(int el * 15 - 90 \<mapsto> row)) k = Some r \<longrightarrow> spectra_of_length fftn r" by simp
  with rest show ?case by (rule Cons.IH)
qed

lemma get_nearest_hrtf_length:
  assumes "HRTF_Engine_init sr fftn = Inr e" "get_nearest_hrtf e az el = Inr (a, b)"
  shows "length a = fftn \<and> length b = fftn"
proof -
  from assms(1) obtain db where
    db: "generate_rows sr fftn 1024 24 [0..<12] Map.empty = Inr db" and e: "hrtf_db e = db"
    by (auto simp: HRTF_Engine_init_def generate_synthetic_hrtf_def split: sum.splits)
  from generate_rows_length [OF db]
  have all: "\<forall>k row. db k = Some row \<longrightarrow> spectra_of_length fftn row" by simp
  from assms(2) e obtain row where "db (target_el_of el) = Some row" "row (target_az_of az) = Some (a, b)"
    by (auto simp: get_nearest_hrtf_def split: option.splits)
  with all show ?thesis by (auto simp: spectra_of_length_def)
qed

lemma np_mul_zeros:
  fixes a :: "complex list"
  shows "length a = n \<Longrightarrow> np_elementwise (*) (replicate n 0) a = Inr (replicate n 0)"
proof -
  assume l: "length a = n"
  have "map2 (*) (replicate n (0::complex)) a = replicate n 0"
    using l by (induction a arbitrary: n) auto
  with l show ?thesis by (simp add: np_elementwise_def)
qed

lemma scipy_ifft_zeros: "1 \<le> n \<Longrightarrow> scipy_ifft (replicate n 0) = Inr (replicate n 0)"
  by (auto simp: scipy_ifft_def idft_zeros)

lemma spatialize_zeros:
  assumes "get_nearest_hrtf e az el = Inr (a, b)"
    and "length a = fft_size e" "length b = fft_size e"
    and "1 \<le> fft_size e" "N \<le> fft_size e"
  shows "spatialize_source e (np_zeros N) az el = Inr (np_zeros N, np_zeros N)"
proof -
  have t: "take (length (np_zeros N)) (map Re (replicate (fft_size e) 0)) = np_zeros N"
    using assms(5) by (simp add: np_zeros_def min_def)
  show ?thesis
    unfolding spatialize_source_def
    by (simp only: assms(1) scipy_fft_zeros [OF assms(4)] np_mul_zeros [OF assms(2)]
        np_mul_zeros [OF assms(3)] scipy_ifft_zeros [OF assms(4)] t sum.case prod.case)
qed

lemma apply_doppler_static: "apply_doppler resample chunk 0 = Inr chunk"
  by (simp add: apply_doppler_def)

lemma np_iadd_zeros: "np_iadd (np_zeros N) (np_zeros N) = Inr (np_zeros N)"
proof -
  have "map2 (+) (replicate N (0::real)) (replicate N 0) = replicate N 0"
    by (induction N) auto
  then show ?thesis by (simp add: np_iadd_def np_zeros_def)
qed

lemma scale_zeros: "map (\<lambda>v. v * c) (np_zeros N) = np_zeros N"
  by (simp add: np_zeros_def)

lemma mix_silent:
  assumes "silent_ready N p" "silent_sources N srcs"
  shows "mix_sources rot resample p lpos srcs (np_zeros N, np_zeros N)
         = Inr (np_zeros N, np_zeros N)"
  using assms(2)
proof (induction srcs)
  case Nil
  then show ?case by (cases lpos) simp
next
  case (Cons s srcs)
  obtain px py pz where lpos: "lpos = (px, py, pz)" by (cases lpos)
  obtain nm chunk sx sy sz where s: "s = (nm, chunk, (sx, sy, sz))" by (cases s) auto
  from Cons.prems s have chunk: "chunk = np_zeros N" and rest: "silent_sources N srcs"
    by (simp_all add: silent_sources_def)
  obtain x y z where r: "rot (sx - px, sy - py, sz - pz) = (x, y, z)"
    by (cases "rot (sx - px, sy - py, sz - pz)")
  from assms(1) have fs: "fft_size (hrtf p) = 2 * N" and N: "1 \<le> N"
    by (simp_all add: silent_ready_def)
  have sp: "spatialize_source (hrtf p) (np_zeros N) az el = Inr (np_zeros N, np_zeros N)" for az el
  proof -
    from assms(1) obtain a b where "get_nearest_hrtf (hrtf p) az el = Inr (a, b)"
      "length a = 2 * N" "length b = 2 * N" unfolding silent_ready_def by blast
    then show ?thesis using fs N spatialize_zeros [of "hrtf p" az el a b N] by simp
  qed
  from Cons.IH [OF rest] lpos
  have IH: "mix_sources rot resample p (px, py, pz) srcs (np_zeros N, np_zeros N)
            = Inr (np_zeros N, np_zeros N)" by simp
  show ?case
    unfolding lpos s chunk
    by (simp add: r Let_def scale_zeros apply_doppler_static sp np_iadd_zeros IH)
qed

lemma apply_eq_zeros: "apply_eq e (np_zeros N) = np_zeros N"
  by (simp add: apply_eq_def np_zeros_def)

lemma apply_reverb_zeros:
  assumes "reverb_buffer e = np_zeros B" "0 \<le> ptr_env e" "ptr_env e < int B - int N"
  shows "apply_reverb e (np_zeros N)
         = Inr (np_zeros N, e\<lparr>ptr_env := (ptr_env e + int N) mod (int B - int N)\<rparr>)"
proof -
  define k where "k = nat (ptr_env e)"
  have k: "k + N \<le> B" "k < B" using assms(2,3) by (simp_all add: k_def)
  have out: "map2 (+) (np_zeros N) (map (\<lambda>b. b * reverb_decay e) (take N (drop k (np_zeros B))))
             = np_zeros N"
  proof -
    have "take N (drop k (replicate B (0::real))) = replicate N 0" using k by (simp add: min_def)
    moreover have "map2 (+) (replicate N (0::real)) (replicate N 0) = replicate N 0"
      by (induction N) auto
    ultimately show ?thesis by (simp add: np_zeros_def)
  qed
  have buf: "take k (np_zeros B) @ np_zeros N @ drop (k + N) (np_zeros B) = np_zeros B"
  proof -
    have "replicate (min B k) (0::real) @ replicate N 0 @ replicate (B - (k + N)) 0
          = replicate (k + N + (B - (k + N))) 0"
      using k by (simp add: replicate_add [symmetric] min_def)
    with k show ?thesis by (simp add: np_zeros_def)
  qed
  have len: "length (np_zeros N) = N" "length (np_zeros B) = B" by (simp_all add: np_zeros_def)
  have w: "ptr_env e < int (length (reverb_buffer e)) - int (length (np_zeros N))"
    using assms(3) by (simp only: assms(1) len)
  have upd: "e\<lparr>reverb_buffer := np_zeros B,
          ptr_env := (ptr_env e + int N) mod (int B - int N)\<rparr>
        = e\<lparr>ptr_env := (ptr_env e + int N) mod (int B - int N)\<rparr>"
    using assms(1) by simp
  from apply_reverb_in_window [OF assms(2) w]
  show ?thesis by (simp only: assms(1) len k_def [symmetric] out buf upd)
qed

lemma process_ctc_zeros:
  assumes "1 \<le> N"
  shows "process_ctc c (np_zeros N) (np_zeros N) = Inr (np_zeros N, np_zeros N)"
proof -
  have s1: "map (\<lambda>x. x * 1.1) (np_zeros N) = np_zeros N"
    and s2: "map (\<lambda>x. x * alpha c * 0.5) (np_zeros N) = np_zeros N"
    by (simp_all add: np_zeros_def)
  have d: "np_elementwise (-) (np_zeros N) (np_zeros N) = Inr (np_zeros N)"
  proof -
    have "map2 (-) (replicate N (0::real)) (replicate N 0) = replicate N 0"
      by (induction N) auto
    then show ?thesis by (simp add: np_elementwise_def np_zeros_def)
  qed
  have ne: "map abs (np_zeros N @ np_zeros N) \<noteq> []" using assms by (auto simp: np_zeros_def)
  have "set (map abs (np_zeros N @ np_zeros N)) = {0}" using assms by (auto simp: np_zeros_def)
  with np_max_Max [OF ne] have m: "np_max (map abs (np_zeros N @ np_zeros N)) = Inr 0"
    by simp
  show ?thesis unfolding process_ctc_def s1 s2 d by (simp add: m del: map_append)
qed

lemma process_silent:
  assumes "silent_ready N p" "silent_sources N srcs"
  shows "\<exists>p'. process inverse_rotate resample p srcs lpos q
              = Inr ((np_zeros N, np_zeros N), p') \<and> silent_ready N p'"
proof -
  from assms(1) obtain B where B: "reverb_buffer (env p) = np_zeros B" "0 \<le> ptr_env (env p)"
    "ptr_env (env p) < int B - int N" and N: "1 \<le> N" and cs: "chunk_size p = N"
    unfolding silent_ready_def by blast
  define e1 where "e1 = (env p)\<lparr>ptr_env := (ptr_env (env p) + int N) mod (int B - int N)\<rparr>"
  define e2 where "e2 = e1\<lparr>ptr_env := (ptr_env e1 + int N) mod (int B - int N)\<rparr>"
  have pos: "0 < int B - int N" using B by linarith
  have r1: "apply_reverb (env p) (np_zeros N) = Inr (np_zeros N, e1)"
    unfolding e1_def using B by (rule apply_reverb_zeros)
  have w1: "reverb_buffer e1 = np_zeros B" "0 \<le> ptr_env e1" "ptr_env e1 < int B - int N"
    using B(1) pos by (simp_all add: e1_def)
  have r2: "apply_reverb e1 (np_zeros N) = Inr (np_zeros N, e2)"
    unfolding e2_def using w1 by (rule apply_reverb_zeros)
  have w2: "reverb_buffer e2 = np_zeros B" "0 \<le> ptr_env e2" "ptr_env e2 < int B - int N"
    using w1(1) pos by (simp_all add: e2_def)
  have st: "eq_reverb_stage (env p) (np_zeros N) (np_zeros N) = Inr (np_zeros N, np_zeros N, e2)"
    by (simp add: eq_reverb_stage_def apply_eq_zeros r1 r2)
  have pr: "process inverse_rotate resample p srcs lpos q
            = Inr ((np_zeros N, np_zeros N), p\<lparr>env := e2\<rparr>)"
    unfolding process_def cs
    by (simp add: mix_silent [OF assms] st process_ctc_zeros [OF N])
  have "silent_ready N (p\<lparr>env := e2\<rparr>)"
    using assms(1) w2 unfolding silent_ready_def by auto
  with pr show ?thesis by blast
qed

lemma render_silent:
  assumes "\<forall>b \<in> set blocks. silent_sources N (fst b)"
  shows "silent_ready N p \<Longrightarrow>
         \<exists>p'. render_blocks inverse_rotate resample p blocks
              = Inr (replicate (length blocks) (np_zeros N, np_zeros N), p')"
  using assms
proof (induction blocks arbitrary: p)
  case Nil
  then show ?case by simp
next
  case (Cons b blocks)
  obtain srcs lpos q where b: "b = (srcs, lpos, q)" by (cases b)
  from Cons.prems(2) b have s: "silent_sources N srcs" by simp
  from process_silent [OF Cons.prems(1) s, of inverse_rotate resample lpos q]
  obtain p1 where p1: "process inverse_rotate resample p srcs lpos q
                       = Inr ((np_zeros N, np_zeros N), p1)" and rdy: "silent_ready N p1"
    by blast
  from Cons.prems(2) have "\<forall>b \<in> set blocks. silent_sources N (fst b)" by simp
  from Cons.IH [OF rdy this] obtain p2 where
    "render_blocks inverse_rotate resample p1 blocks
     = Inr (replicate (length blocks) (np_zeros N, np_zeros N), p2)" ..
  with p1 show ?case by (simp add: b)
qed

lemma hrtf_pair_fft_pos: "hrtf_pair sr fftn flen az = Inr v \<Longrightarrow> 1 \<le> fftn"
  unfolding hrtf_pair_def Let_def
  by (auto simp: scipy_fft_def split: sum.splits if_splits)

lemma HRTF_Engine_init_fft_pos:
  assumes "HRTF_Engine_init sr fftn = Inr e"
  shows "1 \<le> fftn \<and> fft_size e = fftn"
proof -
  have u24: "[0..<24] = 0 # [1..<24]" by (simp add: upt_rec)
  have u12: "[0..<12] = 0 # [1..<12]" by (simp add: upt_rec)
  from assms obtain v where "hrtf_pair sr fftn 1024 0 = Inr v"
    unfolding HRTF_Engine_init_def generate_synthetic_hrtf_def u12
    by (auto simp: u24 split: sum.splits)
  then have "1 \<le> fftn" by (rule hrtf_pair_fft_pos)
  moreover from assms have "fft_size e = fftn"
    by (auto simp: HRTF_Engine_init_def split: sum.splits)
  ultimately show ?thesis by simp
qed

lemma init_silent_ready:
  assumes "DSPPipeline_init sr N = Inr p" "N < length (reverb_buffer (env p))"
  shows "silent_ready N p"
proof -
  from assms(1) obtain h where h: "HRTF_Engine_init sr (N * 2) = Inr h" and
    p: "p = \<lparr>hrtf = h, ctc = CrosstalkCanceller_init 1.5 1.5,
             env = EnvironmentDSP_init sr, chunk_size = N\<rparr>"
    by (auto simp: DSPPipeline_init_def split: sum.splits)
  from HRTF_Engine_init_fft_pos [OF h] have f: "1 \<le> N * 2" "fft_size h = N * 2" by simp_all
  then have N: "1 \<le> N" by simp
  have look: "\<exists>a b. get_nearest_hrtf h az el = Inr (a, b) \<and> length a = 2 * N \<and> length b = 2 * N"
    for az el
  proof -
    from get_nearest_hrtf_ok [OF h, of el az]
    obtain v where v: "get_nearest_hrtf h az el = Inr v" by blast
    obtain a b where "v = (a, b)" by (cases v)
    with v get_nearest_hrtf_length [OF h, of az el a b] show ?thesis by (simp add: mult.commute)
  qed
  define B where "B = nat (py_int (real sr * 0.5))"
  have buf: "reverb_buffer (env p) = np_zeros B" "ptr_env (env p) = 0"
    by (simp_all add: p EnvironmentDSP_init_def B_def)
  with assms(2) have "int N < int B" by (simp add: np_zeros_def)
  with buf N f look show ?thesis
    unfolding silent_ready_def by (auto simp: p)
qed

text \<open>
  C3. Silence propagation: from the pipeline that the constructor returns (the reverb
  buffer all zero), whose block is shorter than the reverb buffer (as in every
  configuration with 2 * block\_size \<le> reverb\_buffer\_len), if every source supplies
  an all-zero chunk in every block, then for every sequence of blocks, every listener
  position and orientation and every rotation, each call of \<open>process\<close> returns without
  an exception and its left and right output blocks are all zero. On silent input every
  sample that a stage computes is a sum or a product with a zero operand, or a copy, so
  the exact arithmetic of the model and the binary64 arithmetic of the code agree; the
  direction computed from the pose only selects the stored pair of spectra.
\<close>

theorem silence_propagates:
  assumes "DSPPipeline_init sr N = Inr p"
    and "N < length (reverb_buffer (env p))"
    and "\<forall>(srcs, lpos, q) \<in> set blocks. \<forall>(nm, chunk, spos) \<in> set srcs. chunk = np_zeros N"
  shows "\<exists>p'. render_blocks inverse_rotate resample p blocks
              = Inr (replicate (length blocks) (np_zeros N, np_zeros N), p')"
proof -
  from assms(3) have "\<forall>b \<in> set blocks. silent_sources N (fst b)"
    by (fastforce simp: silent_sources_def)
  moreover from assms(1,2) have "silent_ready N p" by (rule init_silent_ready)
  ultimately show ?thesis using render_silent by blast
qed

theorem silence_propagates_witness:
  "\<exists>p. DSPPipeline_init 96000 1024 = Inr p
       \<and> 1024 < length (reverb_buffer (env p))
       \<and> (\<exists>p'. render_blocks (\<lambda>q v. v) (\<lambda>x n. x) p
                  [([(''Wind'', np_zeros 1024, (0, 0, 12))], (0, 0, 1.6), ()),
                   ([(''Wind'', np_zeros 1024, (0, 0, 12)), (''Leaves'', np_zeros 1024, (0, 1, 0))],
                    (1, 0, 1.6), ())]
                = Inr ([(np_zeros 1024, np_zeros 1024), (np_zeros 1024, np_zeros 1024)], p'))"
proof -
  from DSPPipeline_init_ok [of 96000 1024]
  obtain p where p: "DSPPipeline_init 96000 1024 = Inr p" "env p = EnvironmentDSP_init 96000"
    by auto
  have "length (reverb_buffer (EnvironmentDSP_init 96000)) = 48000"
    by (simp add: EnvironmentDSP_init_def np_zeros_def py_int_def)
  with p(2) have l: "1024 < length (reverb_buffer (env p))" by simp
  from silence_propagates [OF p(1) l,
      of "[([(''Wind'', np_zeros 1024, (0, 0, 12))], (0, 0, 1.6), ()),
           ([(''Wind'', np_zeros 1024, (0, 0, 12)), (''Leaves'', np_zeros 1024, (0, 1, 0))],
            (1, 0, 1.6), ())]" "\<lambda>q v. v" "\<lambda>x n. x"]
  obtain p' where "render_blocks (\<lambda>q v. v) (\<lambda>x n. x) p
      [([(''Wind'', np_zeros 1024, (0, 0, 12))], (0, 0, 1.6), ()),
       ([(''Wind'', np_zeros 1024, (0, 0, 12)), (''Leaves'', np_zeros 1024, (0, 1, 0))],
        (1, 0, 1.6), ())]
      = Inr ([(np_zeros 1024, np_zeros 1024), (np_zeros 1024, np_zeros 1024)], p')"
    by (auto simp: numeral_2_eq_2)
  with p(1) l show ?thesis by blast
qed

section \<open>Properties of KalmanFilter3D.\_\_init\_\_\<close>

lemma upt_6: "[0..<6] = [0, 1, 2, 3, 4, 5]"
  by (simp add: upt_rec)

lemma upt_3: "[0..<3] = [0, 1, 2]"
  by (simp add: upt_rec)

text \<open>
  C5. The claim: Q is the 6 by 6 diagonal matrix of 0.01 and R the 3 by 3 diagonal
  matrix of 0.15 squared (0.0225). The constructor builds that Q, but its R is
  \<open>np.eye(3) * 0.15\<close>: the diagonal entries are 0.15, the standard deviation that the
  source's own comment (UWB +-15cm) and the sensor simulator give, not its square.
\<close>

theorem kalman_noise_matrices:
  "pos_Q (KalmanFilter3D_init step) =
     [[0.01, 0, 0, 0, 0, 0], [0, 0.01, 0, 0, 0, 0], [0, 0, 0.01, 0, 0, 0],
      [0, 0, 0, 0.01, 0, 0], [0, 0, 0, 0, 0.01, 0], [0, 0, 0, 0, 0, 0.01]]
   \<and> pos_R (KalmanFilter3D_init step) = [[0.15, 0, 0], [0, 0.15, 0], [0, 0, 0.15]]
   \<and> pos_R (KalmanFilter3D_init step) \<noteq> [[0.0225, 0, 0], [0, 0.0225, 0], [0, 0, 0.0225]]"
  by (simp add: KalmanFilter3D_init_def np_eye_def upt_6 upt_3)

end
